theory Spec2Isabelle
  imports Complex_Main
begin

section \<open>The OBJ to USDZ converter (obj_to_usdz.py)\<close>

text \<open>
  The converter reads an OBJ variant whose vertex records may carry an RGB colour after
  the position, triangulates the faces and writes a USD document, wrapped in an
  uncompressed ZIP archive when the output path ends in \<open>.usdz\<close>.

  Conventions of the embedding.
  \<^item> Text is a \<open>string\<close> of ASCII characters. Python's \<open>str.strip\<close>, \<open>str.split\<close> and
    \<open>int\<close> also know the whitespace and the digits of Unicode beyond ASCII; those code
    points are outside the model.
  \<^item> A Python float is the number it denotes, or an infinity or a NaN. Rounding to a
    double is not modelled: the parser takes the reader of float literals as a parameter
    \<open>fl\<close> (\<open>None\<close> is Python's \<open>ValueError\<close>), and every general theorem holds for every
    reader. \<open>exact_float\<close> below is the reader that accepts what \<open>float\<close> accepts on ASCII
    text and returns the exact decimal value; the examples run with it.
  \<^item> Python integers are unbounded: \<open>int\<close>. The interpreter refuses to convert a
    decimal literal of more than 4300 digits (its default limit); \<open>py_int\<close> does too.
  \<^item> The USD library stores face indices as signed 32-bit integers and coordinates in
    single precision. An integer outside the 32-bit range raises \<open>OverflowError\<close>. The
    narrowing of a double to single precision is a function the environment gives, so
    every general theorem holds for every narrowing; the examples use numbers that
    single precision holds exactly.
  \<^item> An exception is a value \<open>Inl e\<close> of a sum type.
\<close>

subsection \<open>Strings\<close>

definition is_space :: "char \<Rightarrow> bool" where
  "is_space c \<longleftrightarrow>
     c = CHR 0x20 \<or> c = CHR 0x09 \<or> c = CHR 0x0A \<or> c = CHR 0x0B \<or> c = CHR 0x0C \<or>
     c = CHR 0x0D \<or> c = CHR 0x1C \<or> c = CHR 0x1D \<or> c = CHR 0x1E \<or> c = CHR 0x1F"

text \<open>The decimal digits, and the value of a digit: its place among them.\<close>

definition is_digit :: "char \<Rightarrow> bool" where
  "is_digit c \<longleftrightarrow> c \<in> set ''0123456789''"

definition digit_val :: "char \<Rightarrow> nat" where
  "digit_val c = length (takeWhile (\<lambda>d. d \<noteq> c) ''0123456789'')"

text \<open>\<open>s.strip()\<close>: leading and trailing whitespace removed.\<close>

definition py_strip :: "string \<Rightarrow> string" where
  "py_strip s = rev (dropWhile is_space (rev (dropWhile is_space s)))"

text \<open>\<open>s.split()\<close>: the maximal runs of non-whitespace characters, in order.\<close>

fun split_acc :: "string \<Rightarrow> string \<Rightarrow> string list" where
  "split_acc cur [] = (if cur = [] then [] else [cur])"
| "split_acc cur (c # cs) =
     (if is_space c then (if cur = [] then split_acc [] cs else cur # split_acc [] cs)
      else split_acc (cur @ [c]) cs)"

definition py_split :: "string \<Rightarrow> string list" where
  "py_split s = split_acc [] s"

text \<open>\<open>s.split('/')[0]\<close>: the text before the first slash, all of \<open>s\<close> when it has none.\<close>

definition first_component :: "string \<Rightarrow> string" where
  "first_component s = takeWhile (\<lambda>c. c \<noteq> CHR ''/'') s"

definition py_startswith :: "string \<Rightarrow> string \<Rightarrow> bool" where
  "py_startswith s p \<longleftrightarrow> take (length p) s = p"

definition py_endswith :: "string \<Rightarrow> string \<Rightarrow> bool" where
  "py_endswith s p \<longleftrightarrow> length p \<le> length s \<and> drop (length s - length p) s = p"

text \<open>
  The lines a text-mode file yields when iterated. Python opens the file with universal
  newlines: \<open>\n\<close>, \<open>\r\<close> and \<open>\r\n\<close> each end a line. The terminator is left out of the
  line here; the parser strips every line before it looks at it. The flag records that
  the previous character was a carriage return.
\<close>

fun lines_acc :: "bool \<Rightarrow> string \<Rightarrow> string \<Rightarrow> string list" where
  "lines_acc cr cur [] = (if cur = [] then [] else [cur])"
| "lines_acc cr cur (c # cs) =
     (if c = CHR 0x0A then (if cr then lines_acc False [] cs else cur # lines_acc False [] cs)
      else if c = CHR 0x0D then cur # lines_acc True [] cs
      else lines_acc False (cur @ [c]) cs)"

definition text_lines :: "string \<Rightarrow> string list" where
  "text_lines t = lines_acc False [] t"

subsection \<open>Reading numbers\<close>

text \<open>
  Both \<open>int\<close> and \<open>float\<close> allow single underscores between digits. The function drops
  them, and fails on an underscore that does not stand between two digits.
\<close>

fun drop_underscores :: "char \<Rightarrow> string \<Rightarrow> string option" where
  "drop_underscores prev [] = (if prev = CHR ''_'' then None else Some [])"
| "drop_underscores prev (c # cs) =
     (if c = CHR ''_'' then (if is_digit prev then drop_underscores c cs else None)
      else if prev = CHR ''_'' \<and> \<not> is_digit c then None
      else map_option ((#) c) (drop_underscores c cs))"

definition digits_val :: "string \<Rightarrow> int" where
  "digits_val ds = foldl (\<lambda>n c. 10 * n + int (digit_val c)) 0 ds"

text \<open>
  The interpreter's limit on the number of digits of a decimal literal that \<open>int\<close>
  converts, at its default. Underscores and the sign do not count, leading zeros do.
\<close>

definition int_max_str_digits :: nat where
  "int_max_str_digits = 4300"

definition unsigned_int :: "string \<Rightarrow> int option" where
  "unsigned_int s =
     (case drop_underscores (CHR 0x00) s of
        None \<Rightarrow> None
      | Some ds \<Rightarrow>
          if ds \<noteq> [] \<and> list_all is_digit ds \<and> length ds \<le> int_max_str_digits
          then Some (digits_val ds) else None)"

text \<open>\<open>int(s)\<close> in base ten: \<open>None\<close> is \<open>ValueError\<close>.\<close>

definition py_int :: "string \<Rightarrow> int option" where
  "py_int s =
     (let t = py_strip s in
      if t = [] then None
      else if hd t = CHR ''-'' then map_option uminus (unsigned_int (tl t))
      else if hd t = CHR ''+'' then unsigned_int (tl t)
      else unsigned_int t)"

datatype pyfloat = Finite real | PosInf | NegInf | NaN

definition lower_ascii :: "char \<Rightarrow> char" where
  "lower_ascii c =
     (if c = CHR ''I'' then CHR ''i'' else if c = CHR ''N'' then CHR ''n''
      else if c = CHR ''F'' then CHR ''f'' else if c = CHR ''T'' then CHR ''t''
      else if c = CHR ''Y'' then CHR ''y'' else if c = CHR ''A'' then CHR ''a''
      else if c = CHR ''E'' then CHR ''e'' else c)"

text \<open>The exponent part of a decimal literal: empty, or \<open>e\<close>, an optional sign and digits.\<close>

definition exponent_of :: "string \<Rightarrow> int option" where
  "exponent_of s =
     (if s = [] then Some 0
      else if lower_ascii (hd s) \<noteq> CHR ''e'' then None
      else let t = tl s;
               neg = (t \<noteq> [] \<and> hd t = CHR ''-'');
               ds = (if t \<noteq> [] \<and> (hd t = CHR ''-'' \<or> hd t = CHR ''+'') then tl t else t)
           in if ds \<noteq> [] \<and> list_all is_digit ds
              then Some (if neg then - digits_val ds else digits_val ds)
              else None)"

definition scale10 :: "int \<Rightarrow> int \<Rightarrow> real" where
  "scale10 m e =
     (if 0 \<le> e then real_of_int m * 10 ^ nat e else real_of_int m / 10 ^ nat (- e))"

text \<open>An unsigned decimal literal: digits, an optional point and digits, an exponent.\<close>

definition unsigned_decimal :: "string \<Rightarrow> real option" where
  "unsigned_decimal s =
     (let ip = takeWhile is_digit s;
          r = dropWhile is_digit s;
          point = (r \<noteq> [] \<and> hd r = CHR ''.'');
          fp = (if point then takeWhile is_digit (tl r) else []);
          r' = (if point then dropWhile is_digit (tl r) else r)
      in if ip = [] \<and> fp = [] then None
         else (case exponent_of r' of
                 None \<Rightarrow> None
               | Some e \<Rightarrow> Some (scale10 (digits_val (ip @ fp)) (e - int (length fp)))))"

definition unsigned_float :: "string \<Rightarrow> pyfloat option" where
  "unsigned_float s =
     (let l = map lower_ascii s in
      if l = ''inf'' \<or> l = ''infinity'' then Some PosInf
      else if l = ''nan'' then Some NaN
      else map_option Finite (unsigned_decimal s))"

definition negate :: "pyfloat \<Rightarrow> pyfloat" where
  "negate x = (case x of Finite r \<Rightarrow> Finite (- r) | PosInf \<Rightarrow> NegInf | NegInf \<Rightarrow> PosInf
               | NaN \<Rightarrow> NaN)"

text \<open>
  \<open>float(s)\<close> on ASCII text, with the exact value of the literal in place of the nearest
  double.
\<close>

definition exact_float :: "string \<Rightarrow> pyfloat option" where
  "exact_float s =
     (case drop_underscores (CHR 0x00) (py_strip s) of
        None \<Rightarrow> None
      | Some t \<Rightarrow>
          if t = [] then None
          else if hd t = CHR ''-'' then map_option negate (unsigned_float (tl t))
          else if hd t = CHR ''+'' then unsigned_float (tl t)
          else unsigned_float t)"

subsection \<open>The parser: \<open>parse_obj_with_colors\<close>\<close>

datatype py_error = ValueError | IOError | UsdError | OverflowError

type_synonym vec3 = "pyfloat \<times> pyfloat \<times> pyfloat"

text \<open>The three lists the parser builds and returns: vertices, colors, faces.\<close>

type_synonym parsed = "vec3 list \<times> vec3 list \<times> int list list"

text \<open>\<open>float(a), float(b), float(c)\<close>, evaluated left to right.\<close>

definition float3 :: "(string \<Rightarrow> pyfloat option) \<Rightarrow> string \<Rightarrow> string \<Rightarrow> string \<Rightarrow> py_error + vec3" where
  "float3 fl a b c =
     (case fl a of None \<Rightarrow> Inl ValueError | Some x \<Rightarrow>
      (case fl b of None \<Rightarrow> Inl ValueError | Some y \<Rightarrow>
       (case fl c of None \<Rightarrow> Inl ValueError | Some z \<Rightarrow> Inr (x, y, z))))"

text \<open>
  The branch \<open>parts[0] == 'v'\<close>. The counter \<open>vertex_count\<close> only decides whether a debug
  line is printed, and is left out with the printing.
\<close>

definition vertex_record :: "(string \<Rightarrow> pyfloat option) \<Rightarrow> string list \<Rightarrow> parsed \<Rightarrow> py_error + parsed" where
  "vertex_record fl parts acc =
     (case acc of (vertices, colors, faces) \<Rightarrow>
      if 7 \<le> length parts then
        (case float3 fl (parts ! 1) (parts ! 2) (parts ! 3) of
           Inl e \<Rightarrow> Inl e
         | Inr p \<Rightarrow>
            (case float3 fl (parts ! 4) (parts ! 5) (parts ! 6) of
               Inl e \<Rightarrow> Inl e
             | Inr c \<Rightarrow> Inr (vertices @ [p], colors @ [c], faces)))
      else if 4 \<le> length parts then
        (case float3 fl (parts ! 1) (parts ! 2) (parts ! 3) of
           Inl e \<Rightarrow> Inl e
         | Inr p \<Rightarrow> Inr (vertices @ [p], colors @ [(Finite 1, Finite 1, Finite 1)], faces))
      else Inr acc)"

text \<open>The inner loop of the face branch: each reference read and made 0-based.\<close>

fun face_indices_of :: "string list \<Rightarrow> py_error + int list" where
  "face_indices_of [] = Inr []"
| "face_indices_of (vertex_data # rest) =
     (case py_int (first_component vertex_data) of
        None \<Rightarrow> Inl ValueError
      | Some vertex_idx \<Rightarrow>
          (case face_indices_of rest of
             Inl e \<Rightarrow> Inl e
           | Inr is \<Rightarrow> Inr ((vertex_idx - 1) # is)))"

text \<open>The triangles one face adds: itself, its fan around the first reference, or none.\<close>

definition triangulate :: "int list \<Rightarrow> int list list" where
  "triangulate face_indices =
     (if length face_indices = 3 then [face_indices]
      else if 3 < length face_indices then
        map (\<lambda>i. [face_indices ! 0, face_indices ! i, face_indices ! (i + 1)])
          [1 ..< length face_indices - 1]
      else [])"

definition face_record :: "string list \<Rightarrow> parsed \<Rightarrow> py_error + parsed" where
  "face_record parts acc =
     (case acc of (vertices, colors, faces) \<Rightarrow>
      (case face_indices_of (tl parts) of
         Inl e \<Rightarrow> Inl e
       | Inr face_indices \<Rightarrow> Inr (vertices, colors, faces @ triangulate face_indices)))"

text \<open>The body of the loop over the lines.\<close>

definition parse_line :: "(string \<Rightarrow> pyfloat option) \<Rightarrow> parsed \<Rightarrow> string \<Rightarrow> py_error + parsed" where
  "parse_line fl acc raw =
     (let line = py_strip raw in
      if line = [] \<or> py_startswith line ''#'' then Inr acc
      else let parts = py_split line in
        if parts = [] then Inr acc
        else if hd parts = ''v'' then vertex_record fl parts acc
        else if hd parts = ''f'' then face_record parts acc
        else Inr acc)"

fun parse_lines :: "(string \<Rightarrow> pyfloat option) \<Rightarrow> parsed \<Rightarrow> string list \<Rightarrow> py_error + parsed" where
  "parse_lines fl acc [] = Inr acc"
| "parse_lines fl acc (l # ls) =
     (case parse_line fl acc l of Inl e \<Rightarrow> Inl e | Inr acc' \<Rightarrow> parse_lines fl acc' ls)"

definition parse_obj_with_colors :: "(string \<Rightarrow> pyfloat option) \<Rightarrow> string \<Rightarrow> py_error + parsed" where
  "parse_obj_with_colors fl text = parse_lines fl ([], [], []) (text_lines text)"

subsection \<open>Paths\<close>

text \<open>
  \<open>s.replace(old, new)\<close>: every occurrence of \<open>old\<close>, found from left to right without
  overlap, replaced by \<open>new\<close>. With an empty \<open>old\<close> Python puts \<open>new\<close> before every
  character and at the end.
\<close>

fun py_replace :: "string \<Rightarrow> string \<Rightarrow> string \<Rightarrow> string" where
  "py_replace [] old new = (if old = [] then new else [])"
| "py_replace (c # cs) old new =
     (if old = [] then new @ c # py_replace cs old new
      else if py_startswith (c # cs) old
        then new @ py_replace (drop (length old) (c # cs)) old new
      else c # py_replace cs old new)"

text \<open>\<open>os.path.basename\<close> on POSIX paths: the text after the last slash.\<close>

definition basename :: "string \<Rightarrow> string" where
  "basename p = rev (takeWhile (\<lambda>c. c \<noteq> CHR ''/'') (rev p))"

text \<open>The first lines of \<open>create_usdz\<close>: where the USD document is written.\<close>

definition intermediate_path_of :: "string \<Rightarrow> string" where
  "intermediate_path_of output_path =
     (if py_endswith output_path ''.usdz'' then py_replace output_path ''.usdz'' ''.usdc''
      else output_path)"

text \<open>
  What the claim about the intermediate path asks for, in the spec's words: the path
  with only its final extension replaced by the document's own.
\<close>

definition replace_final_extension :: "string \<Rightarrow> string" where
  "replace_final_extension output_path =
     take (length output_path - length ''.usdz'') output_path @ ''.usdc''"

subsection \<open>The document\<close>

text \<open>
  The attributes \<open>create_usdz\<close> sets on the stage. \<open>Gf.Vec3f\<close> holds single-precision
  numbers: each coordinate is narrowed, by the function \<open>single\<close>. \<open>Vt.IntArray\<close> holds
  signed 32-bit integers: building it from a Python integer outside that range raises
  \<open>OverflowError\<close>.
\<close>

datatype vec3f = Vec3f pyfloat pyfloat pyfloat

record usd_document =
  default_prim :: string
  up_axis :: string
  mesh_path :: string
  points :: "vec3f list"
  face_vertex_counts :: "int list"
  face_vertex_indices :: "int list"
  display_color :: "vec3f list"
  display_color_interpolation :: string
  display_opacity :: "pyfloat list"
  display_opacity_interpolation :: string

definition to_vec3f :: "(pyfloat \<Rightarrow> pyfloat) \<Rightarrow> vec3 \<Rightarrow> vec3f" where
  "to_vec3f single v = (case v of (a, b, c) \<Rightarrow> Vec3f (single a) (single b) (single c))"

definition int32_ok :: "int \<Rightarrow> bool" where
  "int32_ok i \<longleftrightarrow> - 2147483648 \<le> i \<and> i \<le> 2147483647"

definition vt_int_array :: "int list \<Rightarrow> py_error + int list" where
  "vt_int_array xs = (if list_all int32_ok xs then Inr xs else Inl OverflowError)"

text \<open>
  The arrays in the order \<open>create_usdz\<close> builds them: points, face-vertex counts,
  face-vertex indices, colors, opacities. \<open>Inl\<close> is the exception that ends the building.
\<close>

definition build_document ::
  "(pyfloat \<Rightarrow> pyfloat) \<Rightarrow> vec3 list \<Rightarrow> vec3 list \<Rightarrow> int list list \<Rightarrow> py_error + usd_document" where
  "build_document single vertices colors faces =
     (case vt_int_array (map (\<lambda>face. int (length face)) faces) of
        Inl e \<Rightarrow> Inl e
      | Inr counts \<Rightarrow>
          (case vt_int_array (concat faces) of
             Inl e \<Rightarrow> Inl e
           | Inr indices \<Rightarrow>
               Inr \<lparr> default_prim = ''/World'',
                     up_axis = ''Y'',
                     mesh_path = ''/World/Mesh'',
                     points = map (to_vec3f single) vertices,
                     face_vertex_counts = counts,
                     face_vertex_indices = indices,
                     display_color = map (to_vec3f single) colors,
                     display_color_interpolation = ''vertex'',
                     display_opacity = replicate (length colors) (single (Finite 1)),
                     display_opacity_interpolation = ''vertex'' \<rparr>))"

subsection \<open>Files, the environment and what is printed\<close>

datatype zip_method = Stored | Deflated

text \<open>
  A file is a text, a USD document, the empty layer that \<open>Usd.Stage.CreateNew\<close> writes,
  a ZIP archive (its entries: name, method, content) or the remains of an archive whose
  writing failed. A file system maps paths to files;
  two paths are the same file when they are the same string.
\<close>

datatype file_content =
    TextFile string
  | UsdFile usd_document
  | EmptyUsd
  | ZipFile "(string \<times> zip_method \<times> file_content) list"
  | Broken

type_synonym filesystem = "string \<rightharpoonup> file_content"

text \<open>
  What the outside world decides: whether the USD library fails to create the stage
  (then nothing has been written), how the writing of the archive goes, whether
  removing a file fails, and how a double is narrowed to single precision.
\<close>

datatype zip_outcome = ZipWritten | ZipOpenFails | ZipWriteFails

record environment =
  usd_fails :: bool
  zip_outcome :: zip_outcome
  remove_fails :: bool
  single_of :: "pyfloat \<Rightarrow> pyfloat"

text \<open>
  The narrowing on the numbers that single precision holds exactly: it changes nothing.
  The examples use only such numbers.
\<close>

definition exact_single :: "pyfloat \<Rightarrow> pyfloat" where
  "exact_single x = x"

datatype message =
    Usage
  | InputNotFound string
  | ReadingObj string
  | ParsedCounts nat nat nat
  | NoVertices
  | ColorMismatch nat nat
  | CreatingUsdz string
  | CreatedUsd string
  | CreatedUsdz string
  | WarnFailedUsdz py_error
  | SavedAsUsdc string
  | ConversionComplete
  | Traceback py_error

subsection \<open>The packager: \<open>create_usdz\<close>\<close>

text \<open>
  The body of the \<open>try\<close> block: the archive is opened for writing (which empties it),
  the intermediate file is read into its single entry, and the intermediate file is
  removed if it exists. The result is the file system and the messages at the moment the
  block ends, and the exception that ended it, if any.
\<close>

definition try_archive ::
  "environment \<Rightarrow> string \<Rightarrow> string \<Rightarrow> filesystem \<Rightarrow> filesystem \<times> message list \<times> py_error option" where
  "try_archive env intermediate_path output_path fs =
     (case zip_outcome env of
        ZipOpenFails \<Rightarrow> (fs, [], Some IOError)
      | ZipWriteFails \<Rightarrow> (fs(output_path \<mapsto> Broken), [], Some IOError)
      | ZipWritten \<Rightarrow>
          (let opened = fs(output_path \<mapsto> ZipFile []) in
           case opened intermediate_path of
             None \<Rightarrow> (opened, [], Some IOError)
           | Some content \<Rightarrow>
               (let arcname = basename intermediate_path;
                    written = fs(output_path \<mapsto> ZipFile [(arcname, Stored, content)])
                in if written intermediate_path \<noteq> None then
                     (if remove_fails env
                      then (written, [CreatedUsdz output_path], Some IOError)
                      else (written(intermediate_path := None), [CreatedUsdz output_path], None))
                   else (written, [CreatedUsdz output_path], None))))"

text \<open>
  \<open>create_usdz\<close>: the file system and the messages when the function ends, and the
  exception that leaves it, if any. \<open>Usd.Stage.CreateNew\<close> writes an empty layer at the
  intermediate path; an exception while the arrays are built leaves that file behind;
  \<open>Save\<close> replaces it with the document.
\<close>

definition create_usdz ::
  "environment \<Rightarrow> vec3 list \<Rightarrow> vec3 list \<Rightarrow> int list list \<Rightarrow> string \<Rightarrow> filesystem
     \<Rightarrow> filesystem \<times> message list \<times> py_error option" where
  "create_usdz env vertices colors faces output_path fs =
     (let intermediate_path = intermediate_path_of output_path in
      if usd_fails env then (fs, [], Some UsdError)
      else
        (case build_document (single_of env) vertices colors faces of
           Inl e \<Rightarrow> (fs(intermediate_path \<mapsto> EmptyUsd), [], Some e)
         | Inr document \<Rightarrow>
             (let saved = fs(intermediate_path \<mapsto> UsdFile document);
                  out = [CreatedUsd intermediate_path]
              in if py_endswith output_path ''.usdz'' then
                   (case try_archive env intermediate_path output_path saved of
                      (fs', msgs, None) \<Rightarrow> (fs', out @ msgs, None)
                    | (fs', msgs, Some e) \<Rightarrow>
                        (fs', out @ msgs @ [WarnFailedUsdz e, SavedAsUsdc intermediate_path],
                         None))
                 else (saved, out, None))))"

subsection \<open>The driver: \<open>main\<close>\<close>

text \<open>
  The result is the exit status, the file system and the messages printed. An exception
  that nothing catches ends the process with a traceback and status 1.
\<close>

definition main ::
  "(string \<Rightarrow> pyfloat option) \<Rightarrow> environment \<Rightarrow> string list \<Rightarrow> filesystem
     \<Rightarrow> nat \<times> filesystem \<times> message list" where
  "main fl env argv fs =
     (if length argv \<noteq> 3 then (1, fs, [Usage])
      else
        let input_path = argv ! 1; output_path = argv ! 2 in
        if fs input_path = None then (1, fs, [InputNotFound input_path])
        else
          (case fs input_path of
             Some (TextFile text) \<Rightarrow>
               (case parse_obj_with_colors fl text of
                  Inl e \<Rightarrow> (1, fs, [ReadingObj input_path, Traceback e])
                | Inr (vertices, colors, faces) \<Rightarrow>
                    (let log = [ReadingObj input_path,
                                ParsedCounts (length vertices) (length colors) (length faces)]
                     in if length vertices = 0 then (1, fs, log @ [NoVertices])
                        else
                          let log' = log @
                                (if length colors \<noteq> length vertices
                                 then [ColorMismatch (length colors) (length vertices)] else []) @
                                [CreatingUsdz output_path]
                          in (case create_usdz env vertices colors faces output_path fs of
                                (fs', msgs, Some e) \<Rightarrow> (1, fs', log' @ msgs @ [Traceback e])
                              | (fs', msgs, None) \<Rightarrow>
                                  (0, fs', log' @ msgs @ [ConversionComplete]))))
           | _ \<Rightarrow> (1, fs, [ReadingObj input_path, Traceback IOError])))"

subsection \<open>Records of the input, in the spec's words\<close>

text \<open>
  The fields of a line: none for an empty line and for a comment, the
  whitespace-separated fields otherwise.
\<close>

definition record_parts :: "string \<Rightarrow> string list" where
  "record_parts raw =
     (let line = py_strip raw in
      if line = [] \<or> py_startswith line ''#'' then [] else py_split line)"

definition is_vertex_record :: "string \<Rightarrow> bool" where
  "is_vertex_record raw \<longleftrightarrow> record_parts raw \<noteq> [] \<and> hd (record_parts raw) = ''v''"

definition is_face_record :: "string \<Rightarrow> bool" where
  "is_face_record raw \<longleftrightarrow> record_parts raw \<noteq> [] \<and> hd (record_parts raw) = ''f''"

text \<open>The fan-triangulation count law: a face with \<open>n \<ge> 3\<close> references counts \<open>n - 2\<close>.\<close>

definition expected_triangles :: "string \<Rightarrow> nat" where
  "expected_triangles raw =
     (if is_face_record raw \<and> 3 \<le> length (record_parts raw) - 1
      then length (record_parts raw) - 1 - 2 else 0)"

text \<open>
  A vertex record is parsable when the vertex branch, run on it, adds a vertex.
\<close>

definition parsable_vertex :: "(string \<Rightarrow> pyfloat option) \<Rightarrow> string \<Rightarrow> bool" where
  "parsable_vertex fl raw \<longleftrightarrow>
     is_vertex_record raw \<and>
     (case vertex_record fl (record_parts raw) ([], [], []) of
        Inl e \<Rightarrow> False
      | Inr (vertices, colors, faces) \<Rightarrow> vertices \<noteq> [])"

text \<open>
  A bad vertex record has at least 4 fields, and one of the fields that are read (six
  when it has at least 7 fields, three otherwise) is not a float literal. A bad face
  record has a reference whose first component \<open>int\<close> rejects: it is not an integer
  literal, or it has more digits than \<open>int\<close> converts.
\<close>

definition bad_vertex_record :: "(string \<Rightarrow> pyfloat option) \<Rightarrow> string \<Rightarrow> bool" where
  "bad_vertex_record fl raw \<longleftrightarrow>
     is_vertex_record raw \<and> 4 \<le> length (record_parts raw) \<and>
     list_ex (\<lambda>field. fl field = None)
       (take (if 7 \<le> length (record_parts raw) then 6 else 3) (tl (record_parts raw)))"

definition bad_face_record :: "string \<Rightarrow> bool" where
  "bad_face_record raw \<longleftrightarrow>
     is_face_record raw \<and>
     list_ex (\<lambda>ref. py_int (first_component ref) = None) (tl (record_parts raw))"

definition bad_record :: "(string \<Rightarrow> pyfloat option) \<Rightarrow> string \<Rightarrow> bool" where
  "bad_record fl raw \<longleftrightarrow> bad_vertex_record fl raw \<or> bad_face_record raw"

section \<open>Properties of the parser\<close>

subsection \<open>One line at a time\<close>

lemma parse_line_alt:
  "parse_line fl acc raw =
     (if record_parts raw = [] then Inr acc
      else if is_vertex_record raw then vertex_record fl (record_parts raw) acc
      else if is_face_record raw then face_record (record_parts raw) acc
      else Inr acc)"
  by (simp add: parse_line_def record_parts_def is_vertex_record_def is_face_record_def Let_def)

lemma vertex_record_Inr:
  assumes "vertex_record fl parts (vs, cs, fs) = Inr (vs', cs', fs')"
  shows "fs' = fs \<and> (\<exists>dv dc. vs' = vs @ dv \<and> cs' = cs @ dc \<and> length dv = length dc \<and>
           vertex_record fl parts ([], [], []) = Inr (dv, dc, []))"
  using assms by (auto simp: vertex_record_def split: if_splits sum.splits)

lemma face_record_Inr:
  assumes "face_record parts (vs, cs, fs) = Inr (vs', cs', fs')"
  shows "vs' = vs \<and> cs' = cs \<and>
         (\<exists>is. face_indices_of (tl parts) = Inr is \<and> fs' = fs @ triangulate is)"
  using assms by (auto simp: face_record_def split: sum.splits)

lemma length_triangulate:
  "length (triangulate is) = (if 3 \<le> length is then length is - 2 else 0)"
  by (auto simp: triangulate_def)

lemma face_indices_of_length:
  "face_indices_of xs = Inr is \<Longrightarrow> length is = length xs"
  by (induction xs arbitrary: "is") (auto split: option.splits sum.splits)

lemma parse_line_face_count:
  assumes "parse_line fl (vs, cs, fs) l = Inr (vs', cs', fs')"
  shows "length fs' = length fs + expected_triangles l"
proof (cases "record_parts l \<noteq> [] \<and> is_face_record l")
  case True
  then have nv: "\<not> is_vertex_record l"
    by (auto simp: is_vertex_record_def is_face_record_def)
  from True nv assms have "face_record (record_parts l) (vs, cs, fs) = Inr (vs', cs', fs')"
    by (simp add: parse_line_alt)
  then obtain "is" where i: "face_indices_of (tl (record_parts l)) = Inr is"
    and f: "fs' = fs @ triangulate is"
    using face_record_Inr by blast
  from i have "length is = length (record_parts l) - 1"
    by (simp add: face_indices_of_length)
  with f True show ?thesis
    by (simp add: length_triangulate expected_triangles_def)
next
  case False
  then have e: "expected_triangles l = 0"
    by (auto simp: expected_triangles_def is_face_record_def)
  from False assms have "fs' = fs"
    by (auto simp: parse_line_alt is_face_record_def dest: vertex_record_Inr split: if_splits)
  with e show ?thesis by simp
qed

lemma parse_lines_face_count:
  "parse_lines fl (vs, cs, fs) ls = Inr (vs', cs', fs') \<Longrightarrow>
   length fs' = length fs + sum_list (map expected_triangles ls)"
proof (induction ls arbitrary: vs cs fs)
  case Nil
  then show ?case by simp
next
  case (Cons l ls)
  from Cons.prems obtain vs1 cs1 fs1 where
    s: "parse_line fl (vs, cs, fs) l = Inr (vs1, cs1, fs1)" and
    r: "parse_lines fl (vs1, cs1, fs1) ls = Inr (vs', cs', fs')"
    by (auto split: sum.splits)
  from parse_line_face_count [OF s] Cons.IH [OF r] show ?case by simp
qed

lemma parse_line_lengths:
  assumes "parse_line fl (vs, cs, fs) l = Inr (vs', cs', fs')" and "length vs = length cs"
  shows "length vs' = length cs'"
proof (cases "record_parts l = []")
  case True
  with assms show ?thesis by (simp add: parse_line_alt)
next
  case ne: False
  show ?thesis
  proof (cases "is_vertex_record l")
    case True
    with ne assms(1) have "vertex_record fl (record_parts l) (vs, cs, fs) = Inr (vs', cs', fs')"
      by (simp add: parse_line_alt)
    from vertex_record_Inr [OF this] assms(2) show ?thesis by auto
  next
    case nv: False
    show ?thesis
    proof (cases "is_face_record l")
      case True
      with ne nv assms(1) have "face_record (record_parts l) (vs, cs, fs) = Inr (vs', cs', fs')"
        by (simp add: parse_line_alt)
      from face_record_Inr [OF this] assms(2) show ?thesis by simp
    next
      case False
      with ne nv assms show ?thesis by (simp add: parse_line_alt)
    qed
  qed
qed

lemma parse_lines_lengths:
  "parse_lines fl (vs, cs, fs) ls = Inr (vs', cs', fs') \<Longrightarrow> length vs = length cs \<Longrightarrow>
   length vs' = length cs'"
proof (induction ls arbitrary: vs cs fs)
  case Nil
  then show ?case by simp
next
  case (Cons l ls)
  from Cons.prems obtain vs1 cs1 fs1 where
    s: "parse_line fl (vs, cs, fs) l = Inr (vs1, cs1, fs1)" and
    r: "parse_lines fl (vs1, cs1, fs1) ls = Inr (vs', cs', fs')"
    by (auto split: sum.splits)
  from parse_line_lengths [OF s Cons.prems(2)] Cons.IH [OF r] show ?case by simp
qed


subsection \<open>Fan triangulation\<close>

lemma quad_lines: "text_lines ''f 1 2 3 4'' = [''f 1 2 3 4'']"
  by code_simp

lemma quad_parts: "record_parts ''f 1 2 3 4'' = [''f'', ''1'', ''2'', ''3'', ''4'']"
  by code_simp

lemma quad_indices: "face_indices_of [''1'', ''2'', ''3'', ''4''] = Inr [0, 1, 2, 3]"
  by code_simp

lemma quad_triangles: "triangulate [0, 1, 2, 3] = [[0, 1, 2], [0, 2, 3]]"
  by code_simp

lemma quad_face:
  "parse_obj_with_colors fl ''f 1 2 3 4'' = Inr ([], [], [[0, 1, 2], [0, 2, 3]])"
proof -
  have "parse_line fl ([], [], []) ''f 1 2 3 4'' = Inr ([], [], [[0, 1, 2], [0, 2, 3]])"
    by (simp add: parse_line_alt quad_parts is_vertex_record_def is_face_record_def
        face_record_def quad_indices quad_triangles del: face_indices_of.simps)
  then show ?thesis
    by (simp add: parse_obj_with_colors_def quad_lines)
qed

lemma triangulate_fan:
  "3 \<le> length is \<Longrightarrow>
   triangulate is = map (\<lambda>i. [is ! 0, is ! i, is ! (i + 1)]) [1 ..< length is - 1]"
proof (cases "length is = 3")
  case True
  then obtain a b c where "is = [a, b, c]"
    by (auto simp: length_Suc_conv numeral_3_eq_3)
  then show ?thesis by (simp add: triangulate_def)
next
  case False
  assume "3 \<le> length is"
  with False show ?thesis by (simp add: triangulate_def)
qed

lemma two_faces_lines: "text_lines ''f 1 2 3 4\<newline>f 5/1/1 6//2 7'' = [''f 1 2 3 4'', ''f 5/1/1 6//2 7'']"
  by code_simp

lemma two_faces_parse:
  "parse_obj_with_colors exact_float ''f 1 2 3 4\<newline>f 5/1/1 6//2 7'' =
     Inr ([], [], [[0, 1, 2], [0, 2, 3], [4, 5, 6]])"
  by code_simp

lemma quad_is_face: "is_face_record ''f 1 2 3 4''"
  by code_simp

text \<open>
  C1. A face record with exactly 3 references adds one triangle, the face itself; a face
  record with more references adds the fan \<open>(ref[0], ref[i], ref[i+1])\<close> for
  \<open>i = 1, ..., n - 2\<close>. Whenever the parser returns, the number of faces it returns is
  the sum of \<open>n - 2\<close> over the face records of the input with \<open>n \<ge> 3\<close> references. The
  quad \<open>f 1 2 3 4\<close> gives the two triangles \<open>(0,1,2)\<close> and \<open>(0,2,3)\<close>.
\<close>

theorem fan_triangulation:
  assumes "parse_obj_with_colors fl text = Inr (vertices, colors, faces)"
    and "is_face_record line"
    and "face_indices_of (tl (record_parts line)) = Inr is"
    and "3 \<le> length is"
  shows "length faces = sum_list (map expected_triangles (text_lines text)) \<and>
         parse_line fl (vs, cs, fs) line =
           Inr (vs, cs, fs @ map (\<lambda>i. [is ! 0, is ! i, is ! (i + 1)]) [1 ..< length is - 1]) \<and>
         (if length is = 3 then triangulate is = [is] else length (triangulate is) = length is - 2) \<and>
         parse_obj_with_colors fl ''f 1 2 3 4'' = Inr ([], [], [[0, 1, 2], [0, 2, 3]])"
proof -
  from assms(1) have count: "length faces = sum_list (map expected_triangles (text_lines text))"
    using parse_lines_face_count [of fl "[]" "[]" "[]" "text_lines text" vertices colors faces]
    by (simp add: parse_obj_with_colors_def)
  from assms(2) have "record_parts line \<noteq> []" and "\<not> is_vertex_record line"
    by (auto simp: is_face_record_def is_vertex_record_def)
  with assms(2,3) have
    "parse_line fl (vs, cs, fs) line = Inr (vs, cs, fs @ triangulate is)"
    by (simp add: parse_line_alt face_record_def)
  with assms(4) have line: "parse_line fl (vs, cs, fs) line =
      Inr (vs, cs, fs @ map (\<lambda>i. [is ! 0, is ! i, is ! (i + 1)]) [1 ..< length is - 1])"
    by (simp add: triangulate_fan)
  from assms(4) have shape:
    "if length is = 3 then triangulate is = [is] else length (triangulate is) = length is - 2"
    by (auto simp: triangulate_def)
  from count line shape quad_face show ?thesis by simp
qed

theorem fan_triangulation_witness:
  "parse_obj_with_colors exact_float ''f 1 2 3 4\<newline>f 5/1/1 6//2 7'' =
     Inr ([], [], [[0, 1, 2], [0, 2, 3], [4, 5, 6]]) \<and>
   is_face_record ''f 1 2 3 4'' \<and>
   face_indices_of (tl (record_parts ''f 1 2 3 4'')) = Inr [0, 1, 2, 3] \<and>
   3 \<le> length [0, 1, 2, 3 :: int] \<and>
   length [[0, 1, 2], [0, 2, 3], [4, 5, 6 :: int]] =
     sum_list (map expected_triangles (text_lines ''f 1 2 3 4\<newline>f 5/1/1 6//2 7'')) \<and>
   parse_line exact_float ([], [], [[9, 9, 9]]) ''f 1 2 3 4'' =
     Inr ([], [], [[9, 9, 9], [0, 1, 2], [0, 2, 3]])"
proof -
  have i: "face_indices_of (tl (record_parts ''f 1 2 3 4'')) = Inr [0, 1, 2, 3]"
    by (simp add: quad_parts quad_indices del: face_indices_of.simps)
  have n: "3 \<le> length [0, 1, 2, 3 :: int]" by simp
  have m: "map (\<lambda>i. [[0, 1, 2, 3 :: int] ! 0, [0, 1, 2, 3] ! i, [0, 1, 2, 3] ! (i + 1)])
             [1 ..< length [0, 1, 2, 3 :: int] - 1] = [[0, 1, 2], [0, 2, 3]]"
    by code_simp
  note t = fan_triangulation [OF two_faces_parse quad_is_face i n, of "[]" "[]" "[[9, 9, 9]]"]
  from t have c: "length [[0, 1, 2], [0, 2, 3], [4, 5, 6 :: int]] =
     sum_list (map expected_triangles (text_lines ''f 1 2 3 4\<newline>f 5/1/1 6//2 7''))"
    by (rule conjunct1)
  from t have "parse_line exact_float ([], [], [[9, 9, 9]]) ''f 1 2 3 4'' =
      Inr ([], [], [[9, 9, 9]] @ map (\<lambda>i. [[0, 1, 2, 3 :: int] ! 0, [0, 1, 2, 3] ! i, [0, 1, 2, 3] ! (i + 1)])
             [1 ..< length [0, 1, 2, 3 :: int] - 1])"
    by (elim conjE)
  then have p: "parse_line exact_float ([], [], [[9, 9, 9]]) ''f 1 2 3 4'' =
     Inr ([], [], [[9, 9, 9], [0, 1, 2], [0, 2, 3]])"
    by (simp only: m append.simps)
  from two_faces_parse quad_is_face i n c p show ?thesis
    by (intro conjI)
qed


subsection \<open>Vertices and colors\<close>

lemma try_archive_messages:
  "ColorMismatch a b \<notin> set (fst (snd (try_archive env intermediate_path output_path fs)))"
  by (simp add: try_archive_def Let_def split: zip_outcome.splits option.splits)

lemma create_usdz_messages:
  "ColorMismatch a b \<notin> set (fst (snd (create_usdz env vertices colors faces output_path fs)))"
proof -
  let ?t = "\<lambda>d. try_archive env (intermediate_path_of output_path) output_path
    (fs(intermediate_path_of output_path \<mapsto> UsdFile d))"
  have "\<And>d. ColorMismatch a b \<notin> set (fst (snd (?t d)))"
    by (rule try_archive_messages)
  then have "\<And>d f m e. ?t d = (f, m, e) \<Longrightarrow> ColorMismatch a b \<notin> set m"
    by (metis fst_conv snd_conv)
  then show ?thesis
    by (auto simp: create_usdz_def Let_def split: sum.splits prod.splits option.splits)
qed

lemma main_no_mismatch_aux:
  "ColorMismatch a b \<notin> set (snd (snd (main fl env argv fs)))"
proof (cases "length argv \<noteq> 3 \<or> fs (argv ! 1) = None")
  case True
  then show ?thesis by (auto simp: main_def Let_def)
next
  case False
  then obtain content where c: "fs (argv ! 1) = Some content" and n: "length argv = 3" by auto
  show ?thesis
  proof (cases content)
    case (TextFile body)
    show ?thesis
    proof (cases "parse_obj_with_colors fl body")
      case (Inl e)
      with c n TextFile show ?thesis by (simp add: main_def Let_def)
    next
      case (Inr acc)
      obtain vs cs fcs where acc: "acc = (vs, cs, fcs)" by (cases acc) auto
      from Inr acc have len: "length vs = length cs"
        using parse_lines_lengths [of fl "[]" "[]" "[]" "text_lines body" vs cs fcs]
        by (simp add: parse_obj_with_colors_def)
      obtain fs' msgs exc where r: "create_usdz env vs cs fcs (argv ! 2) fs = (fs', msgs, exc)"
        by (cases "create_usdz env vs cs fcs (argv ! 2) fs") auto
      have "ColorMismatch a b \<notin> set msgs"
        using create_usdz_messages [of a b env vs cs fcs "argv ! 2" fs] r by simp
      with c n TextFile Inr acc len r show ?thesis
        by (cases exc) (simp_all add: main_def Let_def)
    qed
  next
    case (UsdFile d)
    with c n show ?thesis by (simp add: main_def Let_def)
  next
    case EmptyUsd
    with c n show ?thesis by (simp add: main_def Let_def)
  next
    case (ZipFile es)
    with c n show ?thesis by (simp add: main_def Let_def)
  next
    case Broken
    with c n show ?thesis by (simp add: main_def Let_def)
  qed
qed

text \<open>The scenario of the spec: two vertices, a degenerate face and an out-of-range face.\<close>

lemma scenario_parse:
  "parse_obj_with_colors exact_float
     ''v 1 2 3 0.5 0.5 0.5\<newline>v 4 5 6\<newline>f 1 2 1\<newline>f 1 2 3'' =
   Inr ([(Finite 1, Finite 2, Finite 3), (Finite 4, Finite 5, Finite 6)],
        [(Finite (1 / 2), Finite (1 / 2), Finite (1 / 2)), (Finite 1, Finite 1, Finite 1)],
        [[0, 1, 0], [0, 1, 2]])"
  by code_simp

text \<open>
  C10. Whenever the parser returns, the list of vertices and the list of colors have
  the same length, so the driver never prints the warning about a color count that
  differs from the vertex count.
\<close>

theorem vertices_colors_same_length:
  assumes "parse_obj_with_colors fl text = Inr (vertices, colors, faces)"
  shows "length colors = length vertices \<and>
         ColorMismatch a b \<notin> set (snd (snd (main fl env argv fs)))"
proof -
  from assms have "length vertices = length colors"
    using parse_lines_lengths [of fl "[]" "[]" "[]" "text_lines text" vertices colors faces]
    by (simp add: parse_obj_with_colors_def)
  with main_no_mismatch_aux show ?thesis by simp
qed

theorem vertices_colors_same_length_witness:
  "parse_obj_with_colors exact_float
     ''v 1 2 3 0.5 0.5 0.5\<newline>v 4 5 6\<newline>f 1 2 1\<newline>f 1 2 3'' =
   Inr ([(Finite 1, Finite 2, Finite 3), (Finite 4, Finite 5, Finite 6)],
        [(Finite (1 / 2), Finite (1 / 2), Finite (1 / 2)), (Finite 1, Finite 1, Finite 1)],
        [[0, 1, 0], [0, 1, 2]]) \<and>
   length [(Finite (1 / 2), Finite (1 / 2), Finite (1 / 2)), (Finite 1, Finite 1, Finite 1)] =
   length [(Finite 1, Finite 2, Finite 3), (Finite 4, Finite 5, Finite 6)] \<and>
   ColorMismatch 2 1 \<notin> set (snd (snd (main exact_float
      \<lparr>usd_fails = False, zip_outcome = ZipWritten, remove_fails = False,
        single_of = exact_single\<rparr>
      [''obj_to_usdz.py'', ''in.obj'', ''out.usdz'']
      [''in.obj'' \<mapsto> TextFile
         ''v 1 2 3 0.5 0.5 0.5\<newline>v 4 5 6\<newline>f 1 2 1\<newline>f 1 2 3''])))"
  using scenario_parse
    vertices_colors_same_length [OF scenario_parse, of 2 1
      "\<lparr>usd_fails = False, zip_outcome = ZipWritten, remove_fails = False,
        single_of = exact_single\<rparr>"
      "[''obj_to_usdz.py'', ''in.obj'', ''out.usdz'']"
      "[''in.obj'' \<mapsto> TextFile
         ''v 1 2 3 0.5 0.5 0.5\<newline>v 4 5 6\<newline>f 1 2 1\<newline>f 1 2 3'']"]
  by (intro conjI) (erule conjunct1 conjunct2 | assumption)+

subsection \<open>Vertex records\<close>








subsection \<open>No vertices\<close>

lemma parse_line_keeps_vertices:
  assumes "parse_line fl (vs, cs, fs) l = Inr (vs', cs', fs')" and "\<not> parsable_vertex fl l"
  shows "vs' = vs"
proof (cases "record_parts l = []")
  case True
  with assms show ?thesis by (simp add: parse_line_alt)
next
  case ne: False
  show ?thesis
  proof (cases "is_vertex_record l")
    case True
    with ne assms(1) have "vertex_record fl (record_parts l) (vs, cs, fs) = Inr (vs', cs', fs')"
      by (simp add: parse_line_alt)
    from vertex_record_Inr [OF this] obtain dv dc where
      v: "vs' = vs @ dv" and d: "vertex_record fl (record_parts l) ([], [], []) = Inr (dv, dc, [])"
      by blast
    from True d assms(2) have "dv = []" by (simp add: parsable_vertex_def)
    with v show ?thesis by simp
  next
    case nv: False
    show ?thesis
    proof (cases "is_face_record l")
      case True
      with ne nv assms(1) have "face_record (record_parts l) (vs, cs, fs) = Inr (vs', cs', fs')"
        by (simp add: parse_line_alt)
      from face_record_Inr [OF this] show ?thesis by simp
    next
      case False
      with ne nv assms show ?thesis by (simp add: parse_line_alt)
    qed
  qed
qed

lemma parse_lines_keeps_vertices:
  "parse_lines fl (vs, cs, fs) ls = Inr (vs', cs', fs') \<Longrightarrow>
   list_all (\<lambda>l. \<not> parsable_vertex fl l) ls \<Longrightarrow> vs' = vs"
proof (induction ls arbitrary: vs cs fs)
  case Nil
  then show ?case by simp
next
  case (Cons l ls)
  from Cons.prems(1) obtain vs1 cs1 fs1 where
    s: "parse_line fl (vs, cs, fs) l = Inr (vs1, cs1, fs1)" and
    r: "parse_lines fl (vs1, cs1, fs1) ls = Inr (vs', cs', fs')"
    by (auto split: sum.splits)
  from Cons.prems(2) have nl: "\<not> parsable_vertex fl l"
    and rest: "list_all (\<lambda>l. \<not> parsable_vertex fl l) ls" by simp_all
  from parse_line_keeps_vertices [OF s nl] Cons.IH [OF r rest] show ?case by simp
qed

lemma main_parse_error:
  assumes "fs input_path = Some (TextFile body)" and "parse_obj_with_colors fl body = Inl e"
  shows "main fl env [prog, input_path, output_path] fs =
           (1, fs, [ReadingObj input_path, Traceback e])"
  using assms by (simp add: main_def)

lemma main_no_vertices:
  assumes "fs input_path = Some (TextFile body)"
    and "parse_obj_with_colors fl body = Inr ([], cs, fcs)"
  shows "main fl env [prog, input_path, output_path] fs =
           (1, fs, [ReadingObj input_path, ParsedCounts 0 (length cs) (length fcs), NoVertices])"
  using assms by (simp add: main_def)

lemma no_vertex_lines:
  "list_all (\<lambda>l. \<not> parsable_vertex exact_float l) (text_lines ''# empty\<newline>v 1 2\<newline>f 1 2 3'')"
  by code_simp

text \<open>
  C5. When no line of the input is a parsable vertex record (in particular when the
  input has no \<open>v\<close> record), the parser raises or returns no vertex, the driver ends with
  status 1, and the file system is what it was: no output file is created.
\<close>

theorem no_vertices_no_output:
  assumes "fs input_path = Some (TextFile body)"
    and "list_all (\<lambda>l. \<not> parsable_vertex fl l) (text_lines body)"
  shows "(case parse_obj_with_colors fl body of
            Inl e \<Rightarrow> True | Inr (vertices, colors, faces) \<Rightarrow> vertices = []) \<and>
         fst (main fl env [prog, input_path, output_path] fs) = 1 \<and>
         fst (snd (main fl env [prog, input_path, output_path] fs)) = fs"
proof (cases "parse_obj_with_colors fl body")
  case (Inl e)
  from assms(1) Inl
  have "main fl env [prog, input_path, output_path] fs =
          (1, fs, [ReadingObj input_path, Traceback e])"
    by (rule main_parse_error)
  with Inl show ?thesis by simp
next
  case (Inr acc)
  obtain vs cs fcs where acc: "acc = (vs, cs, fcs)" by (cases acc) auto
  from Inr acc assms(2) have "vs = []"
    using parse_lines_keeps_vertices [of fl "[]" "[]" "[]" "text_lines body" vs cs fcs]
    by (simp add: parse_obj_with_colors_def)
  with Inr acc have p: "parse_obj_with_colors fl body = Inr ([], cs, fcs)" by simp
  from assms(1) p
  have "main fl env [prog, input_path, output_path] fs =
          (1, fs, [ReadingObj input_path, ParsedCounts 0 (length cs) (length fcs), NoVertices])"
    by (rule main_no_vertices)
  with p show ?thesis by simp
qed

theorem no_vertices_no_output_witness:
  "[''in.obj'' \<mapsto> TextFile ''# empty\<newline>v 1 2\<newline>f 1 2 3''] ''in.obj'' =
     Some (TextFile ''# empty\<newline>v 1 2\<newline>f 1 2 3'') \<and>
   list_all (\<lambda>l. \<not> parsable_vertex exact_float l)
     (text_lines ''# empty\<newline>v 1 2\<newline>f 1 2 3'') \<and>
   fst (main exact_float \<lparr>usd_fails = False, zip_outcome = ZipWritten, remove_fails = False,
        single_of = exact_single\<rparr>
     [''obj_to_usdz.py'', ''in.obj'', ''out.usdz'']
     [''in.obj'' \<mapsto> TextFile ''# empty\<newline>v 1 2\<newline>f 1 2 3'']) = 1 \<and>
   fst (snd (main exact_float \<lparr>usd_fails = False, zip_outcome = ZipWritten, remove_fails = False,
        single_of = exact_single\<rparr>
     [''obj_to_usdz.py'', ''in.obj'', ''out.usdz'']
     [''in.obj'' \<mapsto> TextFile ''# empty\<newline>v 1 2\<newline>f 1 2 3''])) ''out.usdz'' = None"
proof -
  have f: "[''in.obj'' \<mapsto> TextFile ''# empty\<newline>v 1 2\<newline>f 1 2 3''] ''in.obj'' =
     Some (TextFile ''# empty\<newline>v 1 2\<newline>f 1 2 3'')" by simp
  note t = no_vertices_no_output [of "[''in.obj'' \<mapsto> TextFile ''# empty\<newline>v 1 2\<newline>f 1 2 3'']"
      "''in.obj''" "''# empty\<newline>v 1 2\<newline>f 1 2 3''" exact_float
      "\<lparr>usd_fails = False, zip_outcome = ZipWritten, remove_fails = False,
        single_of = exact_single\<rparr>"
      "''obj_to_usdz.py''" "''out.usdz''", OF f no_vertex_lines]
  from t have s: "fst (main exact_float \<lparr>usd_fails = False, zip_outcome = ZipWritten, remove_fails = False,
        single_of = exact_single\<rparr>
     [''obj_to_usdz.py'', ''in.obj'', ''out.usdz'']
     [''in.obj'' \<mapsto> TextFile ''# empty\<newline>v 1 2\<newline>f 1 2 3'']) = 1"
    by (elim conjE)
  from t have "fst (snd (main exact_float \<lparr>usd_fails = False, zip_outcome = ZipWritten, remove_fails = False,
        single_of = exact_single\<rparr>
     [''obj_to_usdz.py'', ''in.obj'', ''out.usdz'']
     [''in.obj'' \<mapsto> TextFile ''# empty\<newline>v 1 2\<newline>f 1 2 3''])) =
     [''in.obj'' \<mapsto> TextFile ''# empty\<newline>v 1 2\<newline>f 1 2 3'']"
    by (elim conjE)
  then have o: "fst (snd (main exact_float \<lparr>usd_fails = False, zip_outcome = ZipWritten, remove_fails = False,
        single_of = exact_single\<rparr>
     [''obj_to_usdz.py'', ''in.obj'', ''out.usdz'']
     [''in.obj'' \<mapsto> TextFile ''# empty\<newline>v 1 2\<newline>f 1 2 3''])) ''out.usdz'' = None"
    by simp
  from f no_vertex_lines s o show ?thesis by (intro conjI)
qed


subsection \<open>Malformed records\<close>

lemma face_indices_of_Inl:
  "face_indices_of xs = Inl e \<longleftrightarrow>
     e = ValueError \<and> list_ex (\<lambda>ref. py_int (first_component ref) = None) xs"
  by (induction xs) (auto split: option.splits sum.splits)

lemma at_least_four:
  "4 \<le> length xs \<Longrightarrow> \<exists>a b c d r. xs = a # b # c # d # r"
  by (auto simp: numeral_eq_Suc Suc_le_length_iff)

lemma at_least_seven:
  "7 \<le> length xs \<Longrightarrow> \<exists>a b c d e f g r. xs = a # b # c # d # e # f # g # r"
  by (auto simp: numeral_eq_Suc Suc_le_length_iff)

lemma vertex_record_Inl:
  "vertex_record fl parts acc = Inl e \<longleftrightarrow>
     e = ValueError \<and> 4 \<le> length parts \<and>
     list_ex (\<lambda>field. fl field = None) (take (if 7 \<le> length parts then 6 else 3) (tl parts))"
proof (cases "7 \<le> length parts")
  case True
  then obtain a b c d f g h r where p: "parts = a # b # c # d # f # g # h # r"
    using at_least_seven by blast
  obtain vs cs fs where acc: "acc = (vs, cs, fs)" by (cases acc) auto
  show ?thesis
    by (auto simp: p acc vertex_record_def float3_def numeral_eq_Suc split: option.splits)
next
  case n7: False
  show ?thesis
  proof (cases "4 \<le> length parts")
    case True
    then obtain a b c d r where p: "parts = a # b # c # d # r"
      using at_least_four by blast
    obtain vs cs fs where acc: "acc = (vs, cs, fs)" by (cases acc) auto
    from n7 p have short: "\<not> 3 \<le> length r" by simp
    show ?thesis using short
      by (auto simp: p acc vertex_record_def float3_def numeral_eq_Suc split: option.splits)
  next
    case False
    obtain vs cs fs where acc: "acc = (vs, cs, fs)" by (cases acc) auto
    from False n7 show ?thesis by (simp add: acc vertex_record_def)
  qed
qed

lemma face_record_Inl:
  "face_record parts acc = Inl e \<longleftrightarrow>
     e = ValueError \<and> list_ex (\<lambda>ref. py_int (first_component ref) = None) (tl parts)"
proof -
  obtain vs cs fs where acc: "acc = (vs, cs, fs)" by (cases acc) auto
  show ?thesis
    using face_indices_of_Inl [of "tl parts"]
    by (cases "face_indices_of (tl parts)") (auto simp: acc face_record_def)
qed

lemma parse_line_Inl:
  "parse_line fl acc l = Inl e \<longleftrightarrow> e = ValueError \<and> bad_record fl l"
proof (cases "record_parts l = []")
  case True
  then show ?thesis
    by (simp add: parse_line_alt bad_record_def bad_vertex_record_def bad_face_record_def
        is_vertex_record_def is_face_record_def)
next
  case ne: False
  show ?thesis
  proof (cases "is_vertex_record l")
    case True
    then have nf: "\<not> is_face_record l"
      by (auto simp: is_vertex_record_def is_face_record_def)
    from ne True nf show ?thesis
      by (simp add: parse_line_alt bad_record_def bad_vertex_record_def bad_face_record_def
          vertex_record_Inl)
  next
    case nv: False
    show ?thesis
    proof (cases "is_face_record l")
      case True
      with ne nv show ?thesis
        by (simp add: parse_line_alt bad_record_def bad_vertex_record_def bad_face_record_def
            face_record_Inl)
    next
      case False
      with ne nv show ?thesis
        by (simp add: parse_line_alt bad_record_def bad_vertex_record_def bad_face_record_def)
    qed
  qed
qed

lemma parse_lines_Inl:
  "parse_lines fl acc ls = Inl e \<longleftrightarrow> e = ValueError \<and> list_ex (bad_record fl) ls"
proof (induction ls arbitrary: acc)
  case Nil
  then show ?case by simp
next
  case (Cons l ls)
  show ?case
  proof (cases "parse_line fl acc l")
    case (Inl e')
    then have "e' = ValueError" and "bad_record fl l"
      using parse_line_Inl [of fl acc l e'] by simp_all
    with Inl show ?thesis by auto
  next
    case (Inr acc')
    then have "\<not> bad_record fl l"
      using parse_line_Inl [of fl acc l ValueError] by simp
    with Inr Cons.IH [of acc'] show ?thesis by simp
  qed
qed

lemma short_records:
  "is_vertex_record ''v 1 2''" "length (record_parts ''v 1 2'') < 4"
  "is_face_record ''f 1 2''" "length (record_parts ''f 1 2'') < 4"
  "\<not> bad_face_record ''f 1 2''"
  by code_simp+

lemma bad_line_present:
  "list_ex (bad_record exact_float) (text_lines ''v 7 8 9\<newline>v 1 2 x'')"
  by code_simp

text \<open>
  C4, as stated, fails. The parser has no handler around \<open>float\<close> and \<open>int\<close>: a vertex
  record with a field that is not a float literal, and a face record with a reference
  that is not an integer literal, raise \<open>ValueError\<close> and end the parse of the whole
  file, although good records stand before and after.
\<close>

theorem bad_record_not_skipped:
  "parse_obj_with_colors exact_float ''v 1 2 3\<newline>v a b c\<newline>v 4 5 6'' = Inl ValueError \<and>
   parse_obj_with_colors exact_float ''v 1 2 3\<newline>f 1 x 3\<newline>f 1 1 1'' = Inl ValueError"
  by code_simp

text \<open>
  C4, amended. A \<open>v\<close> record with fewer than 4 fields and an \<open>f\<close> record with fewer than
  3 references, all of them integers, are skipped and parsing goes on. The parser
  raises exactly when some line is a bad record (a \<open>v\<close> record with at least 4 fields
  one of whose fields read is not a float literal, or an \<open>f\<close> record with a reference
  that \<open>int\<close> rejects: not an integer literal, or one of more than 4300 digits), and
  what it raises is \<open>ValueError\<close>.
\<close>

theorem bad_record_aborts:
  assumes "is_vertex_record short_v" and "length (record_parts short_v) < 4"
    and "is_face_record short_f" and "length (record_parts short_f) < 4"
    and "\<not> bad_face_record short_f"
  shows "(parse_obj_with_colors fl body = Inl ValueError) =
           list_ex (bad_record fl) (text_lines body) \<and>
         isl (parse_obj_with_colors fl body) = list_ex (bad_record fl) (text_lines body) \<and>
         parse_line fl acc short_v = Inr acc \<and>
         parse_line fl acc short_f = Inr acc"
proof -
  have a: "(parse_obj_with_colors fl body = Inl ValueError) =
           list_ex (bad_record fl) (text_lines body)"
    by (simp add: parse_obj_with_colors_def parse_lines_Inl)
  have b: "isl (parse_obj_with_colors fl body) = list_ex (bad_record fl) (text_lines body)"
    using parse_lines_Inl [of fl "([], [], [])" "text_lines body"]
    by (cases "parse_lines fl ([], [], []) (text_lines body)")
      (auto simp: parse_obj_with_colors_def)
  obtain vs cs fs where acc: "acc = (vs, cs, fs)" by (cases acc) auto
  from assms(1) have nev: "record_parts short_v \<noteq> []" by (simp add: is_vertex_record_def)
  with assms(1,2) have c: "parse_line fl acc short_v = Inr acc"
    by (simp add: parse_line_alt vertex_record_def acc)
  from assms(3) have nef: "record_parts short_f \<noteq> []" and nvf: "\<not> is_vertex_record short_f"
    by (auto simp: is_face_record_def is_vertex_record_def)
  from assms(3,5) have "\<not> list_ex (\<lambda>ref. py_int (first_component ref) = None) (tl (record_parts short_f))"
    by (simp add: bad_face_record_def)
  then obtain "is" where i: "face_indices_of (tl (record_parts short_f)) = Inr is"
    using face_indices_of_Inl [of "tl (record_parts short_f)"]
    by (cases "face_indices_of (tl (record_parts short_f))") auto
  from face_indices_of_length [OF i] assms(4) have "length is < 3" by simp
  then have "triangulate is = []" by (simp add: triangulate_def)
  with i nef nvf assms(3) have d: "parse_line fl acc short_f = Inr acc"
    by (simp add: parse_line_alt face_record_def acc)
  from a b c d show ?thesis by simp
qed

theorem bad_record_aborts_witness:
  "is_vertex_record ''v 1 2'' \<and> length (record_parts ''v 1 2'') < 4 \<and>
   is_face_record ''f 1 2'' \<and> length (record_parts ''f 1 2'') < 4 \<and>
   \<not> bad_face_record ''f 1 2'' \<and>
   list_ex (bad_record exact_float) (text_lines ''v 7 8 9\<newline>v 1 2 x'') \<and>
   parse_obj_with_colors exact_float ''v 7 8 9\<newline>v 1 2 x'' = Inl ValueError \<and>
   parse_line exact_float ([], [], [[0, 1, 2]]) ''v 1 2'' = Inr ([], [], [[0, 1, 2]]) \<and>
   parse_line exact_float ([], [], [[0, 1, 2]]) ''f 1 2'' = Inr ([], [], [[0, 1, 2]])"
proof -
  note t = bad_record_aborts [OF short_records, of exact_float "''v 7 8 9\<newline>v 1 2 x''"
      "([], [], [[0, 1, 2]])"]
  from t bad_line_present
  have p: "parse_obj_with_colors exact_float ''v 7 8 9\<newline>v 1 2 x'' = Inl ValueError"
    by simp
  from t have v: "parse_line exact_float ([], [], [[0, 1, 2]]) ''v 1 2'' = Inr ([], [], [[0, 1, 2]])"
    by (elim conjE)
  from t have f: "parse_line exact_float ([], [], [[0, 1, 2]]) ''f 1 2'' = Inr ([], [], [[0, 1, 2]])"
    by (elim conjE)
  from short_records bad_line_present p v f show ?thesis by (intro conjI)
qed


section \<open>Properties of the packager\<close>

subsection \<open>The arrays of the document\<close>

lemma triangulate_triangles: "list_all (\<lambda>face. length face = 3) (triangulate is)"
  by (auto simp: triangulate_def list_all_iff)

lemma parse_line_triangles:
  assumes "parse_line fl (vs, cs, fs) l = Inr (vs', cs', fs')"
    and "list_all (\<lambda>face. length face = 3) fs"
  shows "list_all (\<lambda>face. length face = 3) fs'"
proof (cases "record_parts l \<noteq> [] \<and> \<not> is_vertex_record l \<and> is_face_record l")
  case True
  with assms(1) have "face_record (record_parts l) (vs, cs, fs) = Inr (vs', cs', fs')"
    by (simp add: parse_line_alt)
  from face_record_Inr [OF this] assms(2) show ?thesis
    by (auto simp: triangulate_triangles)
next
  case False
  with assms(1) have "fs' = fs"
    by (auto simp: parse_line_alt dest: vertex_record_Inr split: if_splits)
  with assms(2) show ?thesis by simp
qed

lemma parse_lines_triangles:
  "parse_lines fl (vs, cs, fs) ls = Inr (vs', cs', fs') \<Longrightarrow>
   list_all (\<lambda>face. length face = 3) fs \<Longrightarrow> list_all (\<lambda>face. length face = 3) fs'"
proof (induction ls arbitrary: vs cs fs)
  case Nil
  then show ?case by simp
next
  case (Cons l ls)
  from Cons.prems(1) obtain vs1 cs1 fs1 where
    s: "parse_line fl (vs, cs, fs) l = Inr (vs1, cs1, fs1)" and
    r: "parse_lines fl (vs1, cs1, fs1) ls = Inr (vs', cs', fs')"
    by (auto split: sum.splits)
  from parse_line_triangles [OF s Cons.prems(2)] Cons.IH [OF r] show ?case by simp
qed

lemma parsed_faces_triangles:
  assumes "parse_obj_with_colors fl body = Inr (vertices, colors, faces)"
  shows "list_all (\<lambda>face. length face = 3) faces"
  using assms parse_lines_triangles [of fl "[]" "[]" "[]" "text_lines body" vertices colors faces]
  by (simp add: parse_obj_with_colors_def)

lemma triangle_counts:
  "list_all (\<lambda>face. length face = 3) faces \<Longrightarrow>
   map (\<lambda>face. int (length face)) faces = replicate (length faces) 3"
  by (induction faces) simp_all

lemma triangle_indices_length:
  "list_all (\<lambda>face. length face = 3) faces \<Longrightarrow> length (concat faces) = 3 * length faces"
  by (induction faces) simp_all

lemma counts_fit: "list_all int32_ok (replicate n 3)"
  by (simp add: list_all_iff int32_ok_def)

lemma build_document_triangles:
  assumes "list_all (\<lambda>face. length face = 3) faces" and "list_all int32_ok (concat faces)"
  shows "build_document single vertices colors faces =
     Inr \<lparr> default_prim = ''/World'', up_axis = ''Y'', mesh_path = ''/World/Mesh'',
           points = map (to_vec3f single) vertices,
           face_vertex_counts = replicate (length faces) 3,
           face_vertex_indices = concat faces,
           display_color = map (to_vec3f single) colors,
           display_color_interpolation = ''vertex'',
           display_opacity = replicate (length colors) (single (Finite 1)),
           display_opacity_interpolation = ''vertex'' \<rparr>"
  using assms(2)
  by (simp add: build_document_def vt_int_array_def triangle_counts [OF assms(1)] counts_fit)

lemma build_document_overflow:
  assumes "list_all (\<lambda>face. length face = 3) faces" and "\<not> list_all int32_ok (concat faces)"
  shows "build_document single vertices colors faces = Inl OverflowError"
  using assms(2)
  by (simp add: build_document_def vt_int_array_def triangle_counts [OF assms(1)] counts_fit)


lemma square_faces:
  "list_all (\<lambda>face. length face = 3) [[0, 1, 2], [0, 2, 3 :: int]]"
  "list_all int32_ok (concat [[0, 1, 2], [0, 2, 3]])"
  "list_all (\<lambda>face. length face = 3) [[0, 0, 2147483648 :: int]]"
  "\<not> list_all int32_ok (concat [[0, 0, 2147483648]])"
  by code_simp+

lemma square_document:
  "build_document exact_single
     [(Finite 0, Finite 0, Finite 0), (Finite 1, Finite 0, Finite 0),
      (Finite 1, Finite 1, Finite 0), (Finite 0, Finite 1, Finite 0)]
     [(Finite 1, Finite 1, Finite 1), (Finite 1, Finite 1, Finite 1),
      (Finite 1, Finite 1, Finite 1), (Finite 1, Finite 1, Finite 1)]
     [[0, 1, 2], [0, 2, 3]] =
   Inr \<lparr> default_prim = ''/World'', up_axis = ''Y'', mesh_path = ''/World/Mesh'',
         points = [Vec3f (Finite 0) (Finite 0) (Finite 0), Vec3f (Finite 1) (Finite 0) (Finite 0),
                   Vec3f (Finite 1) (Finite 1) (Finite 0), Vec3f (Finite 0) (Finite 1) (Finite 0)],
         face_vertex_counts = [3, 3],
         face_vertex_indices = [0, 1, 2, 0, 2, 3],
         display_color = [Vec3f (Finite 1) (Finite 1) (Finite 1), Vec3f (Finite 1) (Finite 1) (Finite 1),
                   Vec3f (Finite 1) (Finite 1) (Finite 1), Vec3f (Finite 1) (Finite 1) (Finite 1)],
         display_color_interpolation = ''vertex'',
         display_opacity = [Finite 1, Finite 1, Finite 1, Finite 1],
         display_opacity_interpolation = ''vertex'' \<rparr>"
  by code_simp

text \<open>
  C6, as stated, fails for a mesh with a face index that does not fit a signed 32-bit
  integer: building the index array raises \<open>OverflowError\<close>, no document is built, and
  the driver ends with status 1. The parser produces such a mesh from a face record
  with the reference 2147483649.
\<close>

theorem index_beyond_int32_raises:
  "build_document exact_single [(Finite 0, Finite 0, Finite 0)] [(Finite 1, Finite 1, Finite 1)]
     [[0, 0, 2147483648]] = Inl OverflowError \<and>
   fst (main exact_float
     \<lparr>usd_fails = False, zip_outcome = ZipWritten, remove_fails = False,
        single_of = exact_single\<rparr>
     [''obj_to_usdz.py'', ''in.obj'', ''out.usdz'']
     [''in.obj'' \<mapsto> TextFile ''v 0 0 0\<newline>f 1 1 2147483649'']) = 1 \<and>
   snd (snd (main exact_float
     \<lparr>usd_fails = False, zip_outcome = ZipWritten, remove_fails = False,
        single_of = exact_single\<rparr>
     [''obj_to_usdz.py'', ''in.obj'', ''out.usdz'']
     [''in.obj'' \<mapsto> TextFile ''v 0 0 0\<newline>f 1 1 2147483649''])) =
     [ReadingObj ''in.obj'', ParsedCounts 1 1 1, CreatingUsdz ''out.usdz'',
      Traceback OverflowError]"
  by code_simp

text \<open>
  C6, amended. For a mesh whose faces are all triangles and whose face indices all fit
  a signed 32-bit integer, the document has one point for each vertex, one face-vertex
  count for each face, every count being 3, and the face-vertex indices are the faces'
  indices one face after the other, three for each face. With an index that does not
  fit, building the document raises \<open>OverflowError\<close>.
\<close>

theorem document_arrays:
  assumes "list_all (\<lambda>face. length face = 3) faces"
    and "list_all int32_ok (concat faces)"
    and "list_all (\<lambda>face. length face = 3) wide"
    and "\<not> list_all int32_ok (concat wide)"
  shows "(case build_document single vertices colors faces of
            Inl e \<Rightarrow> False
          | Inr d \<Rightarrow>
              length (points d) = length vertices \<and>
              face_vertex_counts d = replicate (length faces) 3 \<and>
              face_vertex_indices d = concat faces \<and>
              length (face_vertex_indices d) = 3 * length faces) \<and>
         build_document single vertices colors wide = Inl OverflowError"
  by (simp add: build_document_triangles [OF assms(1,2)] triangle_indices_length [OF assms(1)]
      build_document_overflow [OF assms(3,4)])

theorem document_arrays_witness:
  "list_all (\<lambda>face. length face = 3) [[0, 1, 2], [0, 2, 3 :: int]] \<and>
   list_all int32_ok (concat [[0, 1, 2], [0, 2, 3]]) \<and>
   list_all (\<lambda>face. length face = 3) [[0, 0, 2147483648 :: int]] \<and>
   \<not> list_all int32_ok (concat [[0, 0, 2147483648]]) \<and>
   (case build_document exact_single
      [(Finite 0, Finite 0, Finite 0), (Finite 1, Finite 0, Finite 0),
       (Finite 1, Finite 1, Finite 0), (Finite 0, Finite 1, Finite 0)]
      [(Finite 1, Finite 1, Finite 1), (Finite 1, Finite 1, Finite 1),
       (Finite 1, Finite 1, Finite 1), (Finite 1, Finite 1, Finite 1)]
      [[0, 1, 2], [0, 2, 3]] of
      Inl e \<Rightarrow> False
    | Inr d \<Rightarrow>
        length (points d) = 4 \<and> face_vertex_counts d = [3, 3] \<and>
        face_vertex_indices d = [0, 1, 2, 0, 2, 3]) \<and>
   build_document exact_single
      [(Finite 0, Finite 0, Finite 0), (Finite 1, Finite 0, Finite 0),
       (Finite 1, Finite 1, Finite 0), (Finite 0, Finite 1, Finite 0)]
      [(Finite 1, Finite 1, Finite 1), (Finite 1, Finite 1, Finite 1),
       (Finite 1, Finite 1, Finite 1), (Finite 1, Finite 1, Finite 1)]
      [[0, 0, 2147483648]] = Inl OverflowError"
proof -
  note t = document_arrays [OF square_faces, where single = exact_single
      and vertices = "[(Finite 0, Finite 0, Finite 0), (Finite 1, Finite 0, Finite 0),
        (Finite 1, Finite 1, Finite 0), (Finite 0, Finite 1, Finite 0)]"
      and colors = "[(Finite 1, Finite 1, Finite 1), (Finite 1, Finite 1, Finite 1),
        (Finite 1, Finite 1, Finite 1), (Finite 1, Finite 1, Finite 1)]"]
  from t have o: "build_document exact_single
      [(Finite 0, Finite 0, Finite 0), (Finite 1, Finite 0, Finite 0),
       (Finite 1, Finite 1, Finite 0), (Finite 0, Finite 1, Finite 0)]
      [(Finite 1, Finite 1, Finite 1), (Finite 1, Finite 1, Finite 1),
       (Finite 1, Finite 1, Finite 1), (Finite 1, Finite 1, Finite 1)]
      [[0, 0, 2147483648]] = Inl OverflowError"
    by (rule conjunct2)
  from t have "case build_document exact_single
      [(Finite 0, Finite 0, Finite 0), (Finite 1, Finite 0, Finite 0),
       (Finite 1, Finite 1, Finite 0), (Finite 0, Finite 1, Finite 0)]
      [(Finite 1, Finite 1, Finite 1), (Finite 1, Finite 1, Finite 1),
       (Finite 1, Finite 1, Finite 1), (Finite 1, Finite 1, Finite 1)]
      [[0, 1, 2], [0, 2, 3]] of
      Inl e \<Rightarrow> False
    | Inr d \<Rightarrow>
        length (points d) = 4 \<and> face_vertex_counts d = [3, 3] \<and>
        face_vertex_indices d = [0, 1, 2, 0, 2, 3]"
    by (simp add: square_document)
  with square_faces o show ?thesis by (intro conjI)
qed

subsection \<open>The intermediate path\<close>

text \<open>
  C9 asks that the intermediate path differ from the output path in the final extension
  only. \<open>create_usdz\<close> computes it with \<open>str.replace\<close>, which replaces every occurrence
  of \<open>.usdz\<close>: with an occurrence in a directory name, the intermediate path lies in
  another directory.
\<close>

theorem intermediate_path_changes_directory:
  "intermediate_path_of ''/tmp/a.usdz.d/m.usdz'' = ''/tmp/a.usdc.d/m.usdc'' \<and>
   replace_final_extension ''/tmp/a.usdz.d/m.usdz'' = ''/tmp/a.usdz.d/m.usdc'' \<and>
   intermediate_path_of ''/tmp/a.usdz.d/m.usdz'' \<noteq> replace_final_extension ''/tmp/a.usdz.d/m.usdz''"
  by code_simp

subsection \<open>The archive\<close>

lemma replace_fixed_no_occurrence:
  assumes "old \<noteq> []" and "length new = length old" and "new \<noteq> old"
  shows "py_replace s old new = s \<Longrightarrow> \<not> py_startswith (drop n s) old"
proof (induction s arbitrary: n)
  case Nil
  with assms(1) show ?case by (auto simp: py_startswith_def)
next
  case (Cons c cs)
  have ns: "\<not> py_startswith (c # cs) old"
  proof
    assume st: "py_startswith (c # cs) old"
    with assms(1) Cons.prems
    have "new @ py_replace (drop (length old) (c # cs)) old new = c # cs"
      by simp
    then have "take (length new) (new @ py_replace (drop (length old) (c # cs)) old new) =
               take (length new) (c # cs)"
      by (rule arg_cong)
    then have "new = take (length old) (c # cs)"
      by (simp add: assms(2))
    with st assms(3) show False by (simp add: py_startswith_def)
  qed
  with assms(1) Cons.prems have "py_replace cs old new = cs" by simp
  then have ih: "\<And>m. \<not> py_startswith (drop m cs) old" by (rule Cons.IH)
  show ?case
  proof (cases n)
    case 0
    with ns show ?thesis by simp
  next
    case (Suc m)
    with ih [of m] show ?thesis by simp
  qed
qed

lemma intermediate_path_differs:
  assumes "py_endswith output_path ''.usdz''"
  shows "intermediate_path_of output_path \<noteq> output_path"
proof
  assume "intermediate_path_of output_path = output_path"
  with assms have e: "py_replace output_path ''.usdz'' ''.usdc'' = output_path"
    by (simp add: intermediate_path_of_def)
  have "\<not> py_startswith (drop (length output_path - length ''.usdz'') output_path) ''.usdz''"
    by (rule replace_fixed_no_occurrence [OF _ _ _ e]) simp_all
  with assms show False by (simp add: py_endswith_def py_startswith_def)
qed

lemma basename_no_slash: "CHR ''/'' \<notin> set (basename p)"
  by (auto simp: basename_def dest: set_takeWhileD)

text \<open>The archive step on a file system in which the document has just been saved.\<close>

lemma try_archive_written:
  assumes "ip \<noteq> op" and "zip_outcome env = ZipWritten"
  shows "try_archive env ip op (fs(ip \<mapsto> content)) =
           (if remove_fails env
            then (fs(ip \<mapsto> content, op \<mapsto> ZipFile [(basename ip, Stored, content)]),
                  [CreatedUsdz op], Some IOError)
            else ((fs(ip \<mapsto> content, op \<mapsto> ZipFile [(basename ip, Stored, content)]))(ip := None),
                  [CreatedUsdz op], None))"
  using assms by (simp add: try_archive_def Let_def)

lemma try_archive_failed:
  assumes "ip \<noteq> op" and "zip_outcome env \<noteq> ZipWritten"
  shows "try_archive env ip op (fs(ip \<mapsto> content)) =
           (case zip_outcome env of
              ZipWriteFails \<Rightarrow> fs(ip \<mapsto> content, op \<mapsto> Broken)
            | _ \<Rightarrow> fs(ip \<mapsto> content), [], Some IOError)"
  using assms by (cases "zip_outcome env") (simp_all add: try_archive_def)

lemma create_usdz_archived:
  assumes "py_endswith output_path ''.usdz''" and "usd_fails env = False"
    and "zip_outcome env = ZipWritten"
    and "build_document (single_of env) vertices colors faces = Inr d"
  shows "create_usdz env vertices colors faces output_path fs =
     (if remove_fails env
      then (fs(intermediate_path_of output_path \<mapsto> UsdFile d,
               output_path \<mapsto> ZipFile [(basename (intermediate_path_of output_path), Stored,
                                        UsdFile d)]),
            [CreatedUsd (intermediate_path_of output_path), CreatedUsdz output_path,
             WarnFailedUsdz IOError, SavedAsUsdc (intermediate_path_of output_path)], None)
      else ((fs(intermediate_path_of output_path \<mapsto> UsdFile d,
               output_path \<mapsto> ZipFile [(basename (intermediate_path_of output_path), Stored,
                                        UsdFile d)]))
              (intermediate_path_of output_path := None),
            [CreatedUsd (intermediate_path_of output_path), CreatedUsdz output_path], None))"
  using assms(1,2,4)
  by (simp add: create_usdz_def Let_def
      try_archive_written [OF intermediate_path_differs [OF assms(1)] assms(3)])

lemma create_usdz_archive_failed:
  assumes "py_endswith output_path ''.usdz''" and "usd_fails env = False"
    and "zip_outcome env \<noteq> ZipWritten"
    and "build_document (single_of env) vertices colors faces = Inr d"
  shows "create_usdz env vertices colors faces output_path fs =
     (case zip_outcome env of
        ZipWriteFails \<Rightarrow> fs(intermediate_path_of output_path \<mapsto> UsdFile d, output_path \<mapsto> Broken)
      | _ \<Rightarrow> fs(intermediate_path_of output_path \<mapsto> UsdFile d),
      [CreatedUsd (intermediate_path_of output_path), WarnFailedUsdz IOError,
       SavedAsUsdc (intermediate_path_of output_path)], None)"
  using assms(1,2,4)
  by (simp add: create_usdz_def Let_def
      try_archive_failed [OF intermediate_path_differs [OF assms(1)] assms(3)])

lemma main_created:
  assumes "fs input_path = Some (TextFile body)"
    and "parse_obj_with_colors fl body = Inr (vertices, colors, faces)"
    and "vertices \<noteq> []"
    and "create_usdz env vertices colors faces output_path fs = (fs', msgs, None)"
  shows "main fl env [prog, input_path, output_path] fs =
     (0, fs', [ReadingObj input_path,
               ParsedCounts (length vertices) (length colors) (length faces),
               CreatingUsdz output_path] @ msgs @ [ConversionComplete])"
proof -
  from assms(2) have "length vertices = length colors"
    using parse_lines_lengths [of fl "[]" "[]" "[]" "text_lines body" vertices colors faces]
    by (simp add: parse_obj_with_colors_def)
  with assms show ?thesis by (simp add: main_def)
qed

lemma example_paths:
  "py_endswith ''out/m.usdz'' ''.usdz''"
  "intermediate_path_of ''out/m.usdz'' = ''out/m.usdc''"
  "basename ''out/m.usdc'' = ''m.usdc''"
  by code_simp+

lemma one_triangle:
  "list_all (\<lambda>face. length face = 3) [[0, 0, 0 :: int]]"
  "list_all int32_ok (concat [[0, 0, 0]])"
  by code_simp+

lemma one_triangle_document:
  "build_document exact_single [(Finite 1, Finite 2, Finite 3)] [(Finite 1, Finite 1, Finite 1)]
     [[0, 0, 0]] =
   Inr \<lparr> default_prim = ''/World'', up_axis = ''Y'', mesh_path = ''/World/Mesh'',
         points = [Vec3f (Finite 1) (Finite 2) (Finite 3)],
         face_vertex_counts = [3], face_vertex_indices = [0, 0, 0],
         display_color = [Vec3f (Finite 1) (Finite 1) (Finite 1)],
         display_color_interpolation = ''vertex'',
         display_opacity = [Finite 1],
         display_opacity_interpolation = ''vertex'' \<rparr>"
  by code_simp

lemma one_triangle_parse:
  "parse_obj_with_colors exact_float ''v 1 2 3\<newline>f 1 1 1'' =
     Inr ([(Finite 1, Finite 2, Finite 3)], [(Finite 1, Finite 1, Finite 1)], [[0, 0, 0]])"
  by code_simp

lemma one_vertex_parse:
  "parse_obj_with_colors exact_float ''v 1 2 3'' =
     Inr ([(Finite 1, Finite 2, Finite 3)], [(Finite 1, Finite 1, Finite 1)], [])"
  by code_simp

lemma no_faces_document:
  "build_document exact_single [(Finite 1, Finite 2, Finite 3)] [(Finite 1, Finite 1, Finite 1)] [] =
   Inr \<lparr> default_prim = ''/World'', up_axis = ''Y'', mesh_path = ''/World/Mesh'',
         points = [Vec3f (Finite 1) (Finite 2) (Finite 3)],
         face_vertex_counts = [], face_vertex_indices = [],
         display_color = [Vec3f (Finite 1) (Finite 1) (Finite 1)],
         display_color_interpolation = ''vertex'',
         display_opacity = [Finite 1],
         display_opacity_interpolation = ''vertex'' \<rparr>"
  by code_simp




text \<open>
  C8, as stated, fails in its second half. The removal of the intermediate file stands
  inside the same \<open>try\<close> block as the writing of the archive: when the archive has been
  written and the removal fails, the handler prints its warning, the driver ends with
  status 0, and both the archive and the intermediate document are left behind.
\<close>

theorem both_left_behind:
  "fst (main exact_float
     \<lparr>usd_fails = False, zip_outcome = ZipWritten, remove_fails = True,
        single_of = exact_single\<rparr>
     [''obj_to_usdz.py'', ''in.obj'', ''out.usdz'']
     [''in.obj'' \<mapsto> TextFile ''v 1 2 3\<newline>f 1 1 1'']) = 0 \<and>
   fst (snd (main exact_float
     \<lparr>usd_fails = False, zip_outcome = ZipWritten, remove_fails = True,
        single_of = exact_single\<rparr>
     [''obj_to_usdz.py'', ''in.obj'', ''out.usdz'']
     [''in.obj'' \<mapsto> TextFile ''v 1 2 3\<newline>f 1 1 1''])) ''out.usdz'' \<noteq> None \<and>
   fst (snd (main exact_float
     \<lparr>usd_fails = False, zip_outcome = ZipWritten, remove_fails = True,
        single_of = exact_single\<rparr>
     [''obj_to_usdz.py'', ''in.obj'', ''out.usdz'']
     [''in.obj'' \<mapsto> TextFile ''v 1 2 3\<newline>f 1 1 1''])) ''out.usdc'' \<noteq> None \<and>
   snd (snd (main exact_float
     \<lparr>usd_fails = False, zip_outcome = ZipWritten, remove_fails = True,
        single_of = exact_single\<rparr>
     [''obj_to_usdz.py'', ''in.obj'', ''out.usdz'']
     [''in.obj'' \<mapsto> TextFile ''v 1 2 3\<newline>f 1 1 1''])) =
     [ReadingObj ''in.obj'', ParsedCounts 1 1 1, CreatingUsdz ''out.usdz'',
      CreatedUsd ''out.usdc'', CreatedUsdz ''out.usdz'', WarnFailedUsdz IOError,
      SavedAsUsdc ''out.usdc'', ConversionComplete]"
  by code_simp

text \<open>
  C8, amended. When the output path ends in \<open>.usdz\<close>, the document is built and the
  archive is written, the output file is a ZIP archive with exactly one entry, stored
  without compression, whose name is the base name of the intermediate document, with
  no directory in it, and whose content is the document. The intermediate file is then
  removed, unless the removal fails: then it stays beside the archive, and
  \<open>create_usdz\<close> prints its warning and returns.
\<close>

theorem archive_single_stored_entry:
  assumes "py_endswith output_path ''.usdz''"
    and "usd_fails env = False" and "zip_outcome env = ZipWritten"
    and "list_all (\<lambda>face. length face = 3) faces"
    and "list_all int32_ok (concat faces)"
  shows "(case build_document (single_of env) vertices colors faces of
            Inl e \<Rightarrow> False
          | Inr d \<Rightarrow>
              fst (create_usdz env vertices colors faces output_path fs) output_path =
                Some (ZipFile [(basename (intermediate_path_of output_path), Stored, UsdFile d)]) \<and>
              fst (create_usdz env vertices colors faces output_path fs)
                  (intermediate_path_of output_path) =
                (if remove_fails env then Some (UsdFile d) else None)) \<and>
         CHR ''/'' \<notin> set (basename (intermediate_path_of output_path)) \<and>
         fst (snd (create_usdz env vertices colors faces output_path fs)) =
           [CreatedUsd (intermediate_path_of output_path), CreatedUsdz output_path] @
           (if remove_fails env
            then [WarnFailedUsdz IOError, SavedAsUsdc (intermediate_path_of output_path)]
            else []) \<and>
         snd (snd (create_usdz env vertices colors faces output_path fs)) = None"
proof -
  from assms(1) have ne: "intermediate_path_of output_path \<noteq> output_path"
    by (rule intermediate_path_differs)
  from build_document_triangles [OF assms(4,5)] obtain d where
    d: "build_document (single_of env) vertices colors faces = Inr d" by blast
  note c = create_usdz_archived [OF assms(1,2,3) d, of fs]
  from ne show ?thesis by (simp add: c d basename_no_slash)
qed

theorem archive_single_stored_entry_witness:
  "py_endswith ''out/m.usdz'' ''.usdz'' \<and>
   usd_fails \<lparr>usd_fails = False, zip_outcome = ZipWritten, remove_fails = False,
        single_of = exact_single\<rparr> = False \<and>
   zip_outcome \<lparr>usd_fails = False, zip_outcome = ZipWritten, remove_fails = False,
        single_of = exact_single\<rparr> = ZipWritten \<and>
   list_all (\<lambda>face. length face = 3) [[0, 0, 0 :: int]] \<and>
   list_all int32_ok (concat [[0, 0, 0]]) \<and>
   fst (create_usdz \<lparr>usd_fails = False, zip_outcome = ZipWritten, remove_fails = False,
        single_of = exact_single\<rparr>
        [(Finite 1, Finite 2, Finite 3)] [(Finite 1, Finite 1, Finite 1)] [[0, 0, 0]]
        ''out/m.usdz'' Map.empty) ''out/m.usdz'' =
     Some (ZipFile [(''m.usdc'', Stored, UsdFile
       \<lparr> default_prim = ''/World'', up_axis = ''Y'', mesh_path = ''/World/Mesh'',
         points = [Vec3f (Finite 1) (Finite 2) (Finite 3)],
         face_vertex_counts = [3], face_vertex_indices = [0, 0, 0],
         display_color = [Vec3f (Finite 1) (Finite 1) (Finite 1)],
         display_color_interpolation = ''vertex'',
         display_opacity = [Finite 1],
         display_opacity_interpolation = ''vertex'' \<rparr>)]) \<and>
   fst (create_usdz \<lparr>usd_fails = False, zip_outcome = ZipWritten, remove_fails = False,
        single_of = exact_single\<rparr>
        [(Finite 1, Finite 2, Finite 3)] [(Finite 1, Finite 1, Finite 1)] [[0, 0, 0]]
        ''out/m.usdz'' Map.empty) ''out/m.usdc'' = None \<and>
   fst (snd (create_usdz \<lparr>usd_fails = False, zip_outcome = ZipWritten, remove_fails = False,
        single_of = exact_single\<rparr>
        [(Finite 1, Finite 2, Finite 3)] [(Finite 1, Finite 1, Finite 1)] [[0, 0, 0]]
        ''out/m.usdz'' Map.empty)) = [CreatedUsd ''out/m.usdc'', CreatedUsdz ''out/m.usdz'']"
proof -
  have h2: "usd_fails \<lparr>usd_fails = False, zip_outcome = ZipWritten, remove_fails = False,
        single_of = exact_single\<rparr> = False" by simp
  have h3: "zip_outcome \<lparr>usd_fails = False, zip_outcome = ZipWritten, remove_fails = False,
        single_of = exact_single\<rparr> = ZipWritten" by simp
  note t = archive_single_stored_entry [OF example_paths(1) h2 h3 one_triangle,
      where vertices = "[(Finite 1, Finite 2, Finite 3)]"
        and colors = "[(Finite 1, Finite 1, Finite 1)]" and fs = Map.empty]
  from t have a: "fst (create_usdz \<lparr>usd_fails = False, zip_outcome = ZipWritten, remove_fails = False,
        single_of = exact_single\<rparr>
        [(Finite 1, Finite 2, Finite 3)] [(Finite 1, Finite 1, Finite 1)] [[0, 0, 0]]
        ''out/m.usdz'' Map.empty) ''out/m.usdz'' =
     Some (ZipFile [(''m.usdc'', Stored, UsdFile
       \<lparr> default_prim = ''/World'', up_axis = ''Y'', mesh_path = ''/World/Mesh'',
         points = [Vec3f (Finite 1) (Finite 2) (Finite 3)],
         face_vertex_counts = [3], face_vertex_indices = [0, 0, 0],
         display_color = [Vec3f (Finite 1) (Finite 1) (Finite 1)],
         display_color_interpolation = ''vertex'',
         display_opacity = [Finite 1],
         display_opacity_interpolation = ''vertex'' \<rparr>)])"
    by (simp add: one_triangle_document example_paths(2,3))
  from t have b: "fst (create_usdz \<lparr>usd_fails = False, zip_outcome = ZipWritten, remove_fails = False,
        single_of = exact_single\<rparr>
        [(Finite 1, Finite 2, Finite 3)] [(Finite 1, Finite 1, Finite 1)] [[0, 0, 0]]
        ''out/m.usdz'' Map.empty) ''out/m.usdc'' = None"
    by (simp add: one_triangle_document example_paths(2,3))
  from t have c: "fst (snd (create_usdz \<lparr>usd_fails = False, zip_outcome = ZipWritten, remove_fails = False,
        single_of = exact_single\<rparr>
        [(Finite 1, Finite 2, Finite 3)] [(Finite 1, Finite 1, Finite 1)] [[0, 0, 0]]
        ''out/m.usdz'' Map.empty)) = [CreatedUsd ''out/m.usdc'', CreatedUsdz ''out/m.usdz'']"
    by (simp add: example_paths(2,3))
  from example_paths(1) h2 h3 one_triangle a b c show ?thesis by (intro conjI)
qed

text \<open>
  C2, as stated, fails in its second half. When the writing of the archive fails,
  \<open>create_usdz\<close> catches the exception, prints a warning and returns; the driver then
  prints that the conversion is complete and ends with status 0.
\<close>

theorem archive_failure_exits_zero:
  "fst (main exact_float
     \<lparr>usd_fails = False, zip_outcome = ZipWriteFails, remove_fails = False,
        single_of = exact_single\<rparr>
     [''obj_to_usdz.py'', ''in.obj'', ''out.usdz''] [''in.obj'' \<mapsto> TextFile ''v 1 2 3'']) = 0 \<and>
   snd (snd (main exact_float
     \<lparr>usd_fails = False, zip_outcome = ZipWriteFails, remove_fails = False,
        single_of = exact_single\<rparr>
     [''obj_to_usdz.py'', ''in.obj'', ''out.usdz''] [''in.obj'' \<mapsto> TextFile ''v 1 2 3''])) =
     [ReadingObj ''in.obj'', ParsedCounts 1 1 0, CreatingUsdz ''out.usdz'', CreatedUsd ''out.usdc'',
      WarnFailedUsdz IOError, SavedAsUsdc ''out.usdc'', ConversionComplete]"
  by code_simp

text \<open>
  C2, amended. When the output path ends in \<open>.usdz\<close>, the document has been built and
  the writing of the archive fails, the intermediate document stays where it was
  written, \<open>create_usdz\<close> prints the warning and returns normally, and the driver ends
  with status 0 after printing that the conversion is complete.
\<close>

theorem archive_failure_is_a_warning:
  assumes "py_endswith output_path ''.usdz''"
    and "usd_fails env = False" and "zip_outcome env \<noteq> ZipWritten"
    and "fs input_path = Some (TextFile body)"
    and "parse_obj_with_colors fl body = Inr (vertices, colors, faces)"
    and "vertices \<noteq> []"
    and "list_all int32_ok (concat faces)"
  shows "(case build_document (single_of env) vertices colors faces of
            Inl e \<Rightarrow> False
          | Inr d \<Rightarrow>
              fst (create_usdz env vertices colors faces output_path fs)
                  (intermediate_path_of output_path) = Some (UsdFile d) \<and>
              fst (snd (main fl env [prog, input_path, output_path] fs))
                  (intermediate_path_of output_path) = Some (UsdFile d)) \<and>
         fst (snd (create_usdz env vertices colors faces output_path fs)) =
           [CreatedUsd (intermediate_path_of output_path), WarnFailedUsdz IOError,
            SavedAsUsdc (intermediate_path_of output_path)] \<and>
         snd (snd (create_usdz env vertices colors faces output_path fs)) = None \<and>
         fst (main fl env [prog, input_path, output_path] fs) = 0 \<and>
         last (snd (snd (main fl env [prog, input_path, output_path] fs))) = ConversionComplete"
proof -
  from assms(1) have ne: "intermediate_path_of output_path \<noteq> output_path"
    by (rule intermediate_path_differs)
  from assms(5) have tri: "list_all (\<lambda>face. length face = 3) faces"
    by (rule parsed_faces_triangles)
  from build_document_triangles [OF tri assms(7)] obtain d where
    d: "build_document (single_of env) vertices colors faces = Inr d" by blast
  define fs' where "fs' = (case zip_outcome env of
      ZipWriteFails \<Rightarrow> fs(intermediate_path_of output_path \<mapsto> UsdFile d, output_path \<mapsto> Broken)
    | _ \<Rightarrow> fs(intermediate_path_of output_path \<mapsto> UsdFile d))"
  from ne have kept: "fs' (intermediate_path_of output_path) = Some (UsdFile d)"
    by (simp add: fs'_def split: zip_outcome.splits)
  have c: "create_usdz env vertices colors faces output_path fs =
      (fs', [CreatedUsd (intermediate_path_of output_path), WarnFailedUsdz IOError,
             SavedAsUsdc (intermediate_path_of output_path)], None)"
    by (simp add: create_usdz_archive_failed [OF assms(1,2,3) d] fs'_def)
  from assms(4,5,6) c
  have m: "main fl env [prog, input_path, output_path] fs =
     (0, fs', [ReadingObj input_path,
               ParsedCounts (length vertices) (length colors) (length faces),
               CreatingUsdz output_path] @
              [CreatedUsd (intermediate_path_of output_path), WarnFailedUsdz IOError,
               SavedAsUsdc (intermediate_path_of output_path)] @ [ConversionComplete])"
    by (rule main_created)
  from kept show ?thesis by (simp add: c m d)
qed

theorem archive_failure_is_a_warning_witness:
  "py_endswith ''out/m.usdz'' ''.usdz'' \<and>
   usd_fails \<lparr>usd_fails = False, zip_outcome = ZipOpenFails, remove_fails = False,
        single_of = exact_single\<rparr> = False \<and>
   zip_outcome \<lparr>usd_fails = False, zip_outcome = ZipOpenFails, remove_fails = False,
        single_of = exact_single\<rparr> \<noteq> ZipWritten \<and>
   [''in.obj'' \<mapsto> TextFile ''v 1 2 3''] ''in.obj'' = Some (TextFile ''v 1 2 3'') \<and>
   parse_obj_with_colors exact_float ''v 1 2 3'' =
     Inr ([(Finite 1, Finite 2, Finite 3)], [(Finite 1, Finite 1, Finite 1)], []) \<and>
   [(Finite 1, Finite 2, Finite 3)] \<noteq> [] \<and>
   list_all int32_ok (concat []) \<and>
   fst (main exact_float
     \<lparr>usd_fails = False, zip_outcome = ZipOpenFails, remove_fails = False,
        single_of = exact_single\<rparr>
     [''obj_to_usdz.py'', ''in.obj'', ''out/m.usdz''] [''in.obj'' \<mapsto> TextFile ''v 1 2 3'']) = 0 \<and>
   fst (snd (main exact_float
     \<lparr>usd_fails = False, zip_outcome = ZipOpenFails, remove_fails = False,
        single_of = exact_single\<rparr>
     [''obj_to_usdz.py'', ''in.obj'', ''out/m.usdz''] [''in.obj'' \<mapsto> TextFile ''v 1 2 3'']))
     ''out/m.usdc'' =
     Some (UsdFile
       \<lparr> default_prim = ''/World'', up_axis = ''Y'', mesh_path = ''/World/Mesh'',
         points = [Vec3f (Finite 1) (Finite 2) (Finite 3)],
         face_vertex_counts = [], face_vertex_indices = [],
         display_color = [Vec3f (Finite 1) (Finite 1) (Finite 1)],
         display_color_interpolation = ''vertex'',
         display_opacity = [Finite 1],
         display_opacity_interpolation = ''vertex'' \<rparr>) \<and>
   last (snd (snd (main exact_float
     \<lparr>usd_fails = False, zip_outcome = ZipOpenFails, remove_fails = False,
        single_of = exact_single\<rparr>
     [''obj_to_usdz.py'', ''in.obj'', ''out/m.usdz''] [''in.obj'' \<mapsto> TextFile ''v 1 2 3'']))) =
     ConversionComplete"
proof -
  have h2: "usd_fails \<lparr>usd_fails = False, zip_outcome = ZipOpenFails, remove_fails = False,
        single_of = exact_single\<rparr> = False"
    by simp
  have h3: "zip_outcome \<lparr>usd_fails = False, zip_outcome = ZipOpenFails, remove_fails = False,
        single_of = exact_single\<rparr> \<noteq> ZipWritten"
    by simp
  have h4: "[''in.obj'' \<mapsto> TextFile ''v 1 2 3''] ''in.obj'' = Some (TextFile ''v 1 2 3'')"
    by simp
  have h6: "[(Finite 1, Finite 2, Finite 3)] \<noteq> []" by simp
  have h7: "list_all int32_ok (concat [])" by simp
  note t = archive_failure_is_a_warning [where output_path = "''out/m.usdz''"
      and env = "\<lparr>usd_fails = False, zip_outcome = ZipOpenFails, remove_fails = False,
        single_of = exact_single\<rparr>"
      and fs = "[''in.obj'' \<mapsto> TextFile ''v 1 2 3'']" and input_path = "''in.obj''"
      and body = "''v 1 2 3''" and fl = exact_float
      and vertices = "[(Finite 1, Finite 2, Finite 3)]"
      and colors = "[(Finite 1, Finite 1, Finite 1)]" and faces = "[]"
      and prog = "''obj_to_usdz.py''", OF example_paths(1) h2 h3 h4 one_vertex_parse h6 h7]
  from t have a: "fst (main exact_float
     \<lparr>usd_fails = False, zip_outcome = ZipOpenFails, remove_fails = False,
        single_of = exact_single\<rparr>
     [''obj_to_usdz.py'', ''in.obj'', ''out/m.usdz''] [''in.obj'' \<mapsto> TextFile ''v 1 2 3'']) = 0"
    by (elim conjE)
  from t have b: "fst (snd (main exact_float
     \<lparr>usd_fails = False, zip_outcome = ZipOpenFails, remove_fails = False,
        single_of = exact_single\<rparr>
     [''obj_to_usdz.py'', ''in.obj'', ''out/m.usdz''] [''in.obj'' \<mapsto> TextFile ''v 1 2 3'']))
     ''out/m.usdc'' =
     Some (UsdFile
       \<lparr> default_prim = ''/World'', up_axis = ''Y'', mesh_path = ''/World/Mesh'',
         points = [Vec3f (Finite 1) (Finite 2) (Finite 3)],
         face_vertex_counts = [], face_vertex_indices = [],
         display_color = [Vec3f (Finite 1) (Finite 1) (Finite 1)],
         display_color_interpolation = ''vertex'',
         display_opacity = [Finite 1],
         display_opacity_interpolation = ''vertex'' \<rparr>)"
    by (simp add: no_faces_document example_paths(2))
  from t have c: "last (snd (snd (main exact_float
     \<lparr>usd_fails = False, zip_outcome = ZipOpenFails, remove_fails = False,
        single_of = exact_single\<rparr>
     [''obj_to_usdz.py'', ''in.obj'', ''out/m.usdz''] [''in.obj'' \<mapsto> TextFile ''v 1 2 3'']))) =
     ConversionComplete"
    by (elim conjE)
  from example_paths(1) h2 h3 h4 one_vertex_parse h6 h7 a b c show ?thesis by (intro conjI)
qed

subsection \<open>Faces out of range\<close>



end
